theory Spec2Isabelle
  imports Complex_Main "HOL-Library.Sublist"
begin

section \<open>BudgetWise: the bank-statement reconciliation of \<open>BankComparison\<close>\<close>

text \<open>
  The development embeds the three functions of the component \<open>BankComparison\<close> in
  \<^verbatim>\<open>frontend/src/components/TransactionList.tsx\<close>: \<open>parseCSV\<close> (with \<open>formatDate\<close>),
  \<open>compareTransactions\<close> and \<open>generateReport\<close>.
\<close>

subsection \<open>JavaScript numbers\<close>

text \<open>
  A JavaScript \<open>number\<close> is \<open>NaN\<close>, an infinity or a finite double. A finite double is
  represented by the rational it denotes, and arithmetic on finite values is exact: the
  rounding of doubles (and the overflow of a difference of two finite doubles) is not
  modelled. The two zeros are identified; no function below tells them apart.
\<close>

datatype jsnum = NaN | Fin rat | PosInf | NegInf

fun js_sub :: "jsnum \<Rightarrow> jsnum \<Rightarrow> jsnum" where
  "js_sub NaN _ = NaN"
| "js_sub _ NaN = NaN"
| "js_sub (Fin x) (Fin y) = Fin (x - y)"
| "js_sub (Fin x) PosInf = NegInf"
| "js_sub (Fin x) NegInf = PosInf"
| "js_sub PosInf PosInf = NaN"
| "js_sub PosInf _ = PosInf"
| "js_sub NegInf NegInf = NaN"
| "js_sub NegInf _ = NegInf"

fun js_abs :: "jsnum \<Rightarrow> jsnum" where
  "js_abs NaN = NaN"
| "js_abs (Fin x) = Fin \<bar>x\<bar>"
| "js_abs PosInf = PosInf"
| "js_abs NegInf = PosInf"

text \<open>\<open>a < b\<close> and \<open>a >= b\<close> of JavaScript: both are false when an operand is \<open>NaN\<close>.\<close>

fun js_lt :: "jsnum \<Rightarrow> jsnum \<Rightarrow> bool" where
  "js_lt NaN _ = False"
| "js_lt _ NaN = False"
| "js_lt (Fin x) (Fin y) = (x < y)"
| "js_lt (Fin x) PosInf = True"
| "js_lt (Fin x) NegInf = False"
| "js_lt PosInf _ = False"
| "js_lt NegInf NegInf = False"
| "js_lt NegInf _ = True"

fun js_ge :: "jsnum \<Rightarrow> jsnum \<Rightarrow> bool" where
  "js_ge NaN _ = False"
| "js_ge _ NaN = False"
| "js_ge a b = (\<not> js_lt a b)"

definition js_gt :: "jsnum \<Rightarrow> jsnum \<Rightarrow> bool" where
  "js_gt a b = js_lt b a"

definition isNaN :: "jsnum \<Rightarrow> bool" where
  "isNaN a = (a = NaN)"

subsection \<open>The data model\<close>

text \<open>
  The interfaces \<open>Transaction\<close>, \<open>BankTransaction\<close> and \<open>ComparisonResult\<close>. The fields
  carry a prefix, since both interfaces have fields \<open>date\<close>, \<open>amount\<close>, \<open>type\<close>
  and \<open>description\<close>.
\<close>

datatype tx_kind = Income | Expense

datatype bank_kind = Debit | Credit

record Transaction =
  tx_id :: string
  tx_date :: string
  tx_amount :: jsnum
  tx_category :: string
  tx_type :: tx_kind
  tx_description :: string

record BankTransaction =
  bank_date :: string
  bank_description :: string
  bank_amount :: jsnum
  bank_type :: bank_kind

text \<open>
  The source compares bank transactions by reference (\<open>t !== matchingBankTx\<close>). The
  array \<open>bankTransactions\<close> holds one object per parsed row, so an object is identified
  by its position in that array: a bank object is the pair of its position and its
  contents, and \<open>!==\<close> compares the positions.
\<close>

type_synonym BankObj = "nat \<times> BankTransaction"

record ComparisonResult =
  matched :: "(Transaction \<times> BankObj) list"
  userOnly :: "Transaction list"
  bankOnly :: "BankObj list"
  mismatched :: "(Transaction \<times> BankObj \<times> string) list"

subsection \<open>compareTransactions\<close>

text \<open>
  The tolerance \<open>0.01\<close>, taken as the rational 1/100. The source compares the rounded
  difference of two doubles with the double nearest to 0.01, so for a difference within
  rounding distance of 0.01 its test can differ from the exact one used here.
\<close>

definition tolerance :: jsnum where
  "tolerance = Fin (1 / 100)"

text \<open>The callback of the first \<open>find\<close>.\<close>

definition isExactMatch :: "Transaction \<Rightarrow> BankTransaction \<Rightarrow> bool" where
  "isExactMatch userTx bankTx =
     (let amountMatch = js_lt (js_abs (js_sub (tx_amount userTx) (bank_amount bankTx))) tolerance;
          dateMatch = (tx_date userTx = bank_date bankTx);
          typeMatch = ((tx_type userTx = Income \<and> bank_type bankTx = Credit) \<or>
                       (tx_type userTx = Expense \<and> bank_type bankTx = Debit))
      in amountMatch \<and> dateMatch \<and> typeMatch)"

text \<open>The callback of the second \<open>find\<close>.\<close>

definition isPotentialMismatch :: "Transaction \<Rightarrow> BankTransaction \<Rightarrow> bool" where
  "isPotentialMismatch userTx bankTx =
     (tx_date userTx = bank_date bankTx \<and>
      (js_ge (js_abs (js_sub (tx_amount userTx) (bank_amount bankTx))) tolerance \<or>
       \<not> ((tx_type userTx = Income \<and> bank_type bankTx = Credit) \<or>
          (tx_type userTx = Expense \<and> bank_type bankTx = Debit))))"

definition mismatchReason :: "Transaction \<Rightarrow> BankTransaction \<Rightarrow> string" where
  "mismatchReason userTx potentialMismatch =
     (if js_ge (js_abs (js_sub (tx_amount userTx) (bank_amount potentialMismatch))) tolerance
      then ''Amount mismatch''
      else ''Transaction type mismatch'')"

text \<open>
  The body of \<open>transactions.forEach\<close>: both searches run over the whole array
  \<open>bankTransactions\<close>, and the buckets \<open>userOnly\<close> and \<open>bankOnly\<close> of the result are
  filtered.
\<close>

definition compareStep :: "BankObj list \<Rightarrow> ComparisonResult \<Rightarrow> Transaction \<Rightarrow> ComparisonResult" where
  "compareStep bankTransactions result userTx =
     (case find (\<lambda>bankTx. isExactMatch userTx (snd bankTx)) bankTransactions of
        Some matchingBankTx \<Rightarrow>
          result\<lparr>matched := matched result @ [(userTx, matchingBankTx)],
                 userOnly := filter (\<lambda>t. tx_id t \<noteq> tx_id userTx) (userOnly result),
                 bankOnly := filter (\<lambda>t. fst t \<noteq> fst matchingBankTx) (bankOnly result)\<rparr>
      | None \<Rightarrow>
          (case find (\<lambda>bankTx. isPotentialMismatch userTx (snd bankTx)) bankTransactions of
             Some potentialMismatch \<Rightarrow>
               result\<lparr>mismatched := mismatched result @
                         [(userTx, potentialMismatch, mismatchReason userTx (snd potentialMismatch))],
                      userOnly := filter (\<lambda>t. tx_id t \<noteq> tx_id userTx) (userOnly result),
                      bankOnly := filter (\<lambda>t. fst t \<noteq> fst potentialMismatch) (bankOnly result)\<rparr>
           | None \<Rightarrow> result))"

text \<open>The objects of the array \<open>bankTransactions\<close>, each with its position.\<close>

definition bankObjects :: "BankTransaction list \<Rightarrow> BankObj list" where
  "bankObjects bankTransactions = enumerate 0 bankTransactions"

text \<open>Lines 570 to 628: the initial result and the loop over \<open>transactions\<close>.\<close>

definition compareLoop :: "Transaction list \<Rightarrow> BankObj list \<Rightarrow> ComparisonResult" where
  "compareLoop transactions bankTransactions =
     foldl (compareStep bankTransactions)
       \<lparr>matched = [], userOnly = transactions, bankOnly = bankTransactions, mismatched = []\<rparr>
       transactions"

text \<open>
  \<open>compareTransactions\<close>: with no bank transactions it shows a toast and sets no result
  (\<open>None\<close>); otherwise the result passed to \<open>setComparisonResult\<close>.
\<close>

definition compareTransactions :: "Transaction list \<Rightarrow> BankTransaction list \<Rightarrow> ComparisonResult option" where
  "compareTransactions transactions bankTransactions =
     (if length bankTransactions = 0 then None
      else Some (compareLoop transactions (bankObjects bankTransactions)))"

subsection \<open>JavaScript strings\<close>

text \<open>
  A string is a list of 8-bit characters. The functions below are those of JavaScript
  on ASCII text; the characters beyond ASCII that \<open>trim\<close> removes or \<open>toLowerCase\<close>
  changes are not represented.
\<close>

definition quoteChar :: char where
  "quoteChar = CHR 0x22"

definition tabChar :: char where
  "tabChar = CHR 0x09"

definition newlineChar :: char where
  "newlineChar = CHR 0x0A"

definition isWhiteSpace :: "char \<Rightarrow> bool" where
  "isWhiteSpace c = (c \<in> set [CHR 0x09, CHR 0x0A, CHR 0x0B, CHR 0x0C, CHR 0x0D, CHR 0x20])"

text \<open>\<open>s.trim()\<close>\<close>

definition trim :: "string \<Rightarrow> string" where
  "trim s = rev (dropWhile isWhiteSpace (rev (dropWhile isWhiteSpace s)))"

text \<open>
  \<open>s.split(sep)\<close> for a separator of one character: the pieces between the separators,
  so the result of splitting the empty string is the array holding the empty string.
\<close>

fun split :: "char \<Rightarrow> string \<Rightarrow> string list" where
  "split sep [] = [[]]"
| "split sep (c # cs) =
     (if c = sep then [] # split sep cs
      else (case split sep cs of
              [] \<Rightarrow> [[c]]
            | piece # pieces \<Rightarrow> (c # piece) # pieces))"

fun startsWith :: "string \<Rightarrow> string \<Rightarrow> bool" where
  "startsWith s [] = True"
| "startsWith [] (p # ps) = False"
| "startsWith (c # cs) (p # ps) = (c = p \<and> startsWith cs ps)"

text \<open>\<open>s.includes(sub)\<close>\<close>

fun str_includes :: "string \<Rightarrow> string \<Rightarrow> bool" where
  "str_includes [] sub = (sub = [])"
| "str_includes (c # cs) sub = (startsWith (c # cs) sub \<or> str_includes cs sub)"

definition toLowerChar :: "char \<Rightarrow> char" where
  "toLowerChar c =
     (case map_of (zip ''ABCDEFGHIJKLMNOPQRSTUVWXYZ'' ''abcdefghijklmnopqrstuvwxyz'') c of
        Some l \<Rightarrow> l
      | None \<Rightarrow> c)"

definition toLowerCase :: "string \<Rightarrow> string" where
  "toLowerCase s = map toLowerChar s"

text \<open>\<open>s.replace(/"/g, "")\<close>\<close>

definition removeQuotes :: "string \<Rightarrow> string" where
  "removeQuotes s = filter (\<lambda>c. c \<noteq> quoteChar) s"

text \<open>\<open>s.replace(",", ".")\<close>: only the first comma is replaced.\<close>

fun commaToPeriod :: "string \<Rightarrow> string" where
  "commaToPeriod [] = []"
| "commaToPeriod (c # cs) = (if c = CHR '','' then CHR ''.'' # cs else c # commaToPeriod cs)"

text \<open>\<open>s.padStart(2, "0")\<close>\<close>

definition padStart2 :: "string \<Rightarrow> string" where
  "padStart2 s = replicate (2 - length s) (CHR ''0'') @ s"

text \<open>\<open>xs.findIndex(p)\<close>, which is -1 when no element satisfies \<open>p\<close>.\<close>

fun findIndex :: "('a \<Rightarrow> bool) \<Rightarrow> 'a list \<Rightarrow> int" where
  "findIndex p [] = - 1"
| "findIndex p (x # xs) =
     (if p x then 0 else (let i = findIndex p xs in if i = - 1 then - 1 else i + 1))"

subsection \<open>parseFloat\<close>

definition isDigit :: "char \<Rightarrow> bool" where
  "isDigit c = (c \<in> set ''0123456789'')"

definition digitValue :: "char \<Rightarrow> nat" where
  "digitValue c = (case map_of (zip ''0123456789'' [0, 1, 2, 3, 4, 5, 6, 7, 8, 9]) c of
                     Some d \<Rightarrow> d
                   | None \<Rightarrow> 0)"

definition digitsValue :: "string \<Rightarrow> nat" where
  "digitsValue ds = foldl (\<lambda>n c. 10 * n + digitValue c) 0 ds"

text \<open>
  The exponent part of a decimal literal, read from the text that follows the mantissa:
  \<open>e\<close> or \<open>E\<close>, an optional sign and at least one digit; without digits there is no
  exponent part.
\<close>

definition exponentPart :: "string \<Rightarrow> int" where
  "exponentPart s =
     (case s of
        [] \<Rightarrow> 0
      | c # r \<Rightarrow>
          if c = CHR ''e'' \<or> c = CHR ''E'' then
            (let negative = startsWith r ''-'';
                 d = (if startsWith r ''-'' \<or> startsWith r ''+'' then tl r else r);
                 ds = takeWhile isDigit d
             in if ds = [] then 0
                else if negative then - int (digitsValue ds) else int (digitsValue ds))
          else 0)"

text \<open>
  A decimal value as a JavaScript number: a value that rounds to an infinity (at least
  \<open>2^1024 - 2^970\<close>) is that infinity; any other value is kept exact, not rounded to the
  nearest double.
\<close>

definition toNumber :: "bool \<Rightarrow> rat \<Rightarrow> jsnum" where
  "toNumber negative v =
     (if 2 ^ 1024 - 2 ^ 970 \<le> v then (if negative then NegInf else PosInf)
      else Fin (if negative then - v else v))"

text \<open>
  \<open>parseFloat(s)\<close>: leading white space is skipped, and the longest prefix of the rest
  that is a decimal literal (a sign, then \<open>Infinity\<close>, or digits with an optional
  fraction and exponent) gives the value; \<open>NaN\<close> when there is no such prefix.
\<close>

definition parseFloat :: "string \<Rightarrow> jsnum" where
  "parseFloat s =
     (let t = dropWhile isWhiteSpace s;
          negative = startsWith t ''-'';
          u = (if startsWith t ''-'' \<or> startsWith t ''+'' then tl t else t)
      in if startsWith u ''Infinity'' then (if negative then NegInf else PosInf)
         else
           (let intDigits = takeWhile isDigit u;
                r1 = dropWhile isDigit u;
                fracDigits = (if startsWith r1 ''.'' then takeWhile isDigit (tl r1) else []);
                r2 = (if startsWith r1 ''.'' then dropWhile isDigit (tl r1) else r1)
            in if intDigits = [] \<and> fracDigits = [] then NaN
               else
                 (let mantissa = rat_of_nat (digitsValue (intDigits @ fracDigits)) / 10 ^ length fracDigits;
                      e = exponentPart r2
                  in toNumber negative
                       (if 0 \<le> e then mantissa * 10 ^ nat e else mantissa / 10 ^ nat (- e)))))"

subsection \<open>formatDate\<close>

text \<open>
  \<open>new Date(s)\<close> is the host's date parser, which the language leaves to the
  implementation for every format but the ISO one. It is a parameter \<open>newDate\<close>: for a
  string that the host parses to a valid date, \<open>newDate s\<close> is
  \<open>date.toISOString().split("T")[0]\<close>, and \<open>None\<close> stands for an invalid date.
\<close>

type_synonym dateParser = "string \<Rightarrow> string option"

text \<open>
  The patterns \<open>/^(\d{1,2})\.(\d{1,2})\.(\d{4})$/\<close> and \<open>/^(\d{1,2})-(\d{1,2})-(\d{4})$/\<close>,
  with the separator as an argument: day, month and year when the string matches.
\<close>

definition matchDayMonthYear :: "char \<Rightarrow> string \<Rightarrow> (string \<times> string \<times> string) option" where
  "matchDayMonthYear sep dateStr =
     (case split sep dateStr of
        [day, month, year] \<Rightarrow>
          if list_all isDigit day \<and> length day \<in> {1, 2} \<and>
             list_all isDigit month \<and> length month \<in> {1, 2} \<and>
             list_all isDigit year \<and> length year = 4
          then Some (day, month, year) else None
      | _ \<Rightarrow> None)"

definition tryDayMonthYear :: "dateParser \<Rightarrow> char \<Rightarrow> string \<Rightarrow> string option" where
  "tryDayMonthYear newDate sep dateStr =
     (case matchDayMonthYear sep dateStr of
        Some (day, month, year) \<Rightarrow> newDate (year @ ''-'' @ padStart2 month @ ''-'' @ padStart2 day)
      | None \<Rightarrow> None)"

definition formatDate :: "dateParser \<Rightarrow> string \<Rightarrow> string" where
  "formatDate newDate dateStr =
     (case newDate dateStr of
        Some isoDay \<Rightarrow> isoDay
      | None \<Rightarrow>
          (case tryDayMonthYear newDate (CHR ''.'') dateStr of
             Some isoDay \<Rightarrow> isoDay
           | None \<Rightarrow>
               (case tryDayMonthYear newDate (CHR ''-'') dateStr of
                  Some isoDay \<Rightarrow> isoDay
                | None \<Rightarrow> ''Invalid Date'')))"

subsection \<open>parseCSV\<close>

datatype error = Error string

definition detectDelimiter :: "string \<Rightarrow> char" where
  "detectDelimiter headerLine =
     (if str_includes headerLine '';'' then CHR '';''
      else if str_includes headerLine [tabChar] then tabChar
      else CHR '','')"

text \<open>The callbacks of the four \<open>findIndex\<close> calls on the header cells.\<close>

definition isDateHeader :: "string \<Rightarrow> bool" where
  "isDateHeader h = (str_includes h ''date'' \<or> str_includes h ''datum'')"

definition isDescHeader :: "string \<Rightarrow> bool" where
  "isDescHeader h =
     (str_includes h ''description'' \<or> str_includes h ''memo'' \<or> str_includes h ''detail'' \<or>
      str_includes h ''beschreibung'')"

definition isAmountHeader :: "string \<Rightarrow> bool" where
  "isAmountHeader h = (str_includes h ''amount'' \<or> str_includes h ''betrag'')"

definition isTypeHeader :: "string \<Rightarrow> bool" where
  "isTypeHeader h = (str_includes h ''type'' \<or> str_includes h ''transaction'' \<or> str_includes h ''art'')"

text \<open>
  The callback of \<open>lines.slice(1).map\<close>: the record of a data line, or \<open>null\<close>
  (\<open>None\<close>). The indices are those found in the header; the reads \<open>columns[i]\<close> come
  after the test that the line has more columns than the largest index. The pair
  \<open>amountAndType\<close> holds the variables \<open>amount\<close> and \<open>type\<close> after the \<open>if\<close> on the type
  column.
\<close>

definition parseLine :: "dateParser \<Rightarrow> char \<Rightarrow> int \<Rightarrow> int \<Rightarrow> int \<Rightarrow> int \<Rightarrow> string \<Rightarrow> BankTransaction option" where
  "parseLine newDate delimiter dateIndex descIndex amountIndex typeIndex line =
     (let columns = map (\<lambda>col. removeQuotes (trim col)) (split delimiter line)
      in if int (length columns) \<le>
              max (max (max dateIndex descIndex) amountIndex) (if typeIndex \<noteq> - 1 then typeIndex else 0) \<or>
            trim line = []
         then None
         else
           (let amount = parseFloat (commaToPeriod (columns ! nat amountIndex));
                amountAndType =
                  (if typeIndex \<noteq> - 1
                   then (let typeValue = toLowerCase (columns ! nat typeIndex)
                         in (amount,
                             if str_includes typeValue ''credit'' \<or> str_includes typeValue ''deposit'' \<or>
                                str_includes typeValue ''haben''
                             then Credit else Debit))
                   else (let originalAmount = parseFloat (commaToPeriod (columns ! nat amountIndex))
                         in (js_abs originalAmount,
                             if js_gt originalAmount (Fin 0) then Credit else Debit)));
                formattedDate = formatDate newDate (columns ! nat dateIndex)
            in if formattedDate = ''Invalid Date'' then None
               else Some \<lparr>bank_date = formattedDate, bank_description = columns ! nat descIndex,
                          bank_amount = fst amountAndType, bank_type = snd amountAndType\<rparr>))"

text \<open>
  \<open>parseCSV\<close>: the error is the exception thrown when a required column is missing;
  the final \<open>filter\<close> keeps the records that are not \<open>null\<close> and whose amount is not
  \<open>NaN\<close>.
\<close>

definition parseCSV :: "dateParser \<Rightarrow> string \<Rightarrow> error + BankTransaction list" where
  "parseCSV newDate text =
     (let lines = split newlineChar (trim text)
      in if length lines = 0 then Inr []
         else
           (let headerLine = lines ! 0;
                delimiter = detectDelimiter headerLine;
                header = toLowerCase (lines ! 0);
                headers = map (\<lambda>h. removeQuotes (trim h)) (split delimiter header);
                dateIndex = findIndex isDateHeader headers;
                descIndex = findIndex isDescHeader headers;
                amountIndex = findIndex isAmountHeader headers;
                typeIndex = findIndex isTypeHeader headers
            in if dateIndex = - 1 \<or> descIndex = - 1 \<or> amountIndex = - 1
               then Inl (Error ''Required columns (Date, Description, Amount) not found'')
               else Inr (map the
                      (filter (\<lambda>t. t \<noteq> None \<and> \<not> isNaN (bank_amount (the t)))
                         (map (parseLine newDate delimiter dateIndex descIndex amountIndex typeIndex)
                            (drop 1 lines))))))"

subsection \<open>generateReport\<close>

text \<open>The decimal digits of a natural number, as \<open>${xs.length}\<close> prints it.\<close>

fun showNat :: "nat \<Rightarrow> string" where
  "showNat n =
     (if n < 10 then [''0123456789'' ! n]
      else showNat (n div 10) @ [''0123456789'' ! (n mod 10)])"

declare showNat.simps [simp del]

text \<open>
  \<open>x.toFixed(2)\<close>: the sign, then the integer nearest to \<open>100 * |x|\<close> (the larger one of
  two) with a point before its last two digits. For a magnitude from \<open>10^21\<close> on
  JavaScript prints the shortest decimal form of the double instead, which the model
  does not reproduce.
\<close>

definition toFixed2 :: "jsnum \<Rightarrow> string" where
  "toFixed2 a =
     (case a of
        NaN \<Rightarrow> ''NaN''
      | PosInf \<Rightarrow> ''Infinity''
      | NegInf \<Rightarrow> ''-Infinity''
      | Fin x \<Rightarrow>
          (let n = nat \<lfloor>\<bar>x\<bar> * 100 + 1 / 2\<rfloor>;
               m = showNat n;
               m = replicate (3 - length m) (CHR ''0'') @ m
           in (if x < 0 then ''-'' else []) @
              take (length m - 2) m @ ''.'' @ drop (length m - 2) m))"

definition txTypeString :: "tx_kind \<Rightarrow> string" where
  "txTypeString k = (case k of Income \<Rightarrow> ''income'' | Expense \<Rightarrow> ''expense'')"

definition bankTypeString :: "bank_kind \<Rightarrow> string" where
  "bankTypeString k = (case k of Debit \<Rightarrow> ''debit'' | Credit \<Rightarrow> ''credit'')"

text \<open>The fragment \<open>"${s}"\<close> of a template literal: the value between two quote characters.\<close>

definition inQuotes :: "string \<Rightarrow> string" where
  "inQuotes s = [quoteChar] @ s @ [quoteChar]"

text \<open>The lines appended by the callbacks of the three \<open>forEach\<close> loops.\<close>

definition mismatchRow :: "Transaction \<times> BankObj \<times> string \<Rightarrow> string" where
  "mismatchRow mismatch =
     (case mismatch of (userTransaction, bankTransaction, reason) \<Rightarrow>
        inQuotes reason @ '','' @
        inQuotes (tx_date userTransaction) @ '','' @
        inQuotes (tx_description userTransaction) @ '','' @
        inQuotes (tx_category userTransaction) @ '','' @
        inQuotes (toFixed2 (tx_amount userTransaction)) @ '','' @
        inQuotes (txTypeString (tx_type userTransaction)) @ '','' @
        inQuotes (bank_description (snd bankTransaction)) @ '','' @
        inQuotes (toFixed2 (bank_amount (snd bankTransaction))) @ '','' @
        inQuotes (bankTypeString (bank_type (snd bankTransaction))) @ [newlineChar])"

definition userOnlyRow :: "Transaction \<Rightarrow> string" where
  "userOnlyRow transaction =
     inQuotes (tx_date transaction) @ '','' @
     inQuotes (tx_description transaction) @ '','' @
     inQuotes (tx_category transaction) @ '','' @
     inQuotes (toFixed2 (tx_amount transaction)) @ '','' @
     inQuotes (txTypeString (tx_type transaction)) @ [newlineChar]"

definition bankOnlyRow :: "BankObj \<Rightarrow> string" where
  "bankOnlyRow transaction =
     inQuotes (bank_date (snd transaction)) @ '','' @
     inQuotes (bank_description (snd transaction)) @ '','' @
     inQuotes (toFixed2 (bank_amount (snd transaction))) @ '','' @
     inQuotes (bankTypeString (bank_type (snd transaction))) @ [newlineChar]"

text \<open>
  The four parts of \<open>csvContent\<close>, in the order in which they are appended; the title
  and column names of a section are its header.
\<close>

definition summarySection :: "ComparisonResult \<Rightarrow> string" where
  "summarySection comparisonResult =
     ''Comparison Report'' @ [newlineChar, newlineChar] @
     ''Summary'' @ [newlineChar] @
     inQuotes ''Metric'' @ '','' @ inQuotes ''Count'' @ [newlineChar] @
     inQuotes ''Matched'' @ '','' @ showNat (length (matched comparisonResult)) @ [newlineChar] @
     inQuotes ''Missing from Bank'' @ '','' @ showNat (length (userOnly comparisonResult)) @ [newlineChar] @
     inQuotes ''Missing from Records'' @ '','' @ showNat (length (bankOnly comparisonResult)) @ [newlineChar] @
     inQuotes ''Mismatched'' @ '','' @ showNat (length (mismatched comparisonResult)) @ [newlineChar] @
     [newlineChar]"

definition mismatchedHeader :: string where
  "mismatchedHeader =
     ''Mismatched Transactions'' @ [newlineChar] @
     inQuotes ''Reason'' @ '','' @ inQuotes ''Date'' @ '','' @ inQuotes ''Your Description'' @ '','' @
     inQuotes ''Your Category'' @ '','' @ inQuotes ''Your Amount'' @ '','' @ inQuotes ''Your Type'' @ '','' @
     inQuotes ''Bank Description'' @ '','' @ inQuotes ''Bank Amount'' @ '','' @ inQuotes ''Bank Type'' @
     [newlineChar]"

definition mismatchedSection :: "ComparisonResult \<Rightarrow> string" where
  "mismatchedSection comparisonResult =
     (if length (mismatched comparisonResult) > 0
      then mismatchedHeader @ concat (map mismatchRow (mismatched comparisonResult)) @ [newlineChar]
      else [])"

definition userOnlyHeader :: string where
  "userOnlyHeader =
     ''Missing from Bank (Your Records Only)'' @ [newlineChar] @
     inQuotes ''Date'' @ '','' @ inQuotes ''Description'' @ '','' @ inQuotes ''Category'' @ '','' @
     inQuotes ''Amount'' @ '','' @ inQuotes ''Type'' @ [newlineChar]"

definition userOnlySection :: "ComparisonResult \<Rightarrow> string" where
  "userOnlySection comparisonResult =
     (if length (userOnly comparisonResult) > 0
      then userOnlyHeader @ concat (map userOnlyRow (userOnly comparisonResult)) @ [newlineChar]
      else [])"

definition bankOnlyHeader :: string where
  "bankOnlyHeader =
     ''Missing from Records (Bank Records Only)'' @ [newlineChar] @
     inQuotes ''Date'' @ '','' @ inQuotes ''Description'' @ '','' @ inQuotes ''Amount'' @ '','' @
     inQuotes ''Type'' @ [newlineChar]"

definition bankOnlySection :: "ComparisonResult \<Rightarrow> string" where
  "bankOnlySection comparisonResult =
     (if length (bankOnly comparisonResult) > 0
      then bankOnlyHeader @ concat (map bankOnlyRow (bankOnly comparisonResult)) @ [newlineChar]
      else [])"

text \<open>
  \<open>generateReport\<close>: nothing without a comparison result; otherwise the text
  \<open>csvContent\<close> that is offered for download.
\<close>

definition generateReport :: "ComparisonResult option \<Rightarrow> string option" where
  "generateReport comparisonResult =
     (case comparisonResult of
        None \<Rightarrow> None
      | Some result \<Rightarrow>
          Some (summarySection result @ mismatchedSection result @ userOnlySection result @
                bankOnlySection result))"

subsection \<open>Notions used to state the properties of the comparison\<close>

text \<open>The bank object paired with a user transaction, by either search of the loop body.\<close>

definition pairing :: "BankObj list \<Rightarrow> Transaction \<Rightarrow> BankObj option" where
  "pairing bankTransactions userTx =
     (case find (\<lambda>bankTx. isExactMatch userTx (snd bankTx)) bankTransactions of
        Some m \<Rightarrow> Some m
      | None \<Rightarrow> find (\<lambda>bankTx. isPotentialMismatch userTx (snd bankTx)) bankTransactions)"

text \<open>The bank objects that occur in \<open>matched\<close> or \<open>mismatched\<close>.\<close>

definition pairedBank :: "ComparisonResult \<Rightarrow> BankObj set" where
  "pairedBank r = snd ` set (matched r) \<union> (fst \<circ> snd) ` set (mismatched r)"

text \<open>How often a bank object occurs in the three buckets that hold bank objects.\<close>

definition bankOccurrences :: "ComparisonResult \<Rightarrow> BankObj \<Rightarrow> nat" where
  "bankOccurrences r obj =
     count_list (map snd (matched r)) obj + count_list (map (fst \<circ> snd) (mismatched r)) obj +
     count_list (bankOnly r) obj"

subsection \<open>Sample data\<close>

definition coffee :: Transaction where
  "coffee = \<lparr>tx_id = ''t1'', tx_date = ''2024-01-05'', tx_amount = Fin 50, tx_category = ''Food'',
     tx_type = Expense, tx_description = ''Coffee beans''\<rparr>"

definition lunch :: Transaction where
  "lunch = \<lparr>tx_id = ''t2'', tx_date = ''2024-01-05'', tx_amount = Fin 50, tx_category = ''Food'',
     tx_type = Expense, tx_description = ''Lunch''\<rparr>"

definition books :: Transaction where
  "books = \<lparr>tx_id = ''t3'', tx_date = ''2024-01-05'', tx_amount = Fin 70, tx_category = ''Education'',
     tx_type = Expense, tx_description = ''Books''\<rparr>"

definition refund :: Transaction where
  "refund = \<lparr>tx_id = ''t4'', tx_date = ''2024-01-05'', tx_amount = Fin 50, tx_category = ''Other Income'',
     tx_type = Income, tx_description = ''Refund''\<rparr>"

definition cardPayment :: BankTransaction where
  "cardPayment = \<lparr>bank_date = ''2024-01-05'', bank_description = ''CARD PAYMENT'',
     bank_amount = Fin 50, bank_type = Debit\<rparr>"

definition transfer :: BankTransaction where
  "transfer = \<lparr>bank_date = ''2024-02-01'', bank_description = ''TRANSFER'',
     bank_amount = Fin 900, bank_type = Credit\<rparr>"

definition rentDebit :: BankTransaction where
  "rentDebit = \<lparr>bank_date = ''2024-01-05'', bank_description = ''STANDING ORDER'',
     bank_amount = Fin 70, bank_type = Debit\<rparr>"

subsection \<open>Notions used to state the properties of parseCSV\<close>

text \<open>The values that \<open>parseCSV\<close> binds on the way, as functions of the text.\<close>

definition csvLines :: "string \<Rightarrow> string list" where
  "csvLines text = split newlineChar (trim text)"

definition headerLineOf :: "string \<Rightarrow> string" where
  "headerLineOf text = csvLines text ! 0"

definition delimiterOf :: "string \<Rightarrow> char" where
  "delimiterOf text = detectDelimiter (headerLineOf text)"

definition headersOf :: "string \<Rightarrow> string list" where
  "headersOf text =
     map (\<lambda>h. removeQuotes (trim h)) (split (delimiterOf text) (toLowerCase (headerLineOf text)))"

definition dateIndexOf :: "string \<Rightarrow> int" where
  "dateIndexOf text = findIndex isDateHeader (headersOf text)"

definition descIndexOf :: "string \<Rightarrow> int" where
  "descIndexOf text = findIndex isDescHeader (headersOf text)"

definition amountIndexOf :: "string \<Rightarrow> int" where
  "amountIndexOf text = findIndex isAmountHeader (headersOf text)"

definition typeIndexOf :: "string \<Rightarrow> int" where
  "typeIndexOf text = findIndex isTypeHeader (headersOf text)"

definition dataLines :: "string \<Rightarrow> string list" where
  "dataLines text = drop 1 (csvLines text)"

text \<open>A required or optional column is located when some header cell passes its test.\<close>

definition hasColumn :: "(string \<Rightarrow> bool) \<Rightarrow> string \<Rightarrow> bool" where
  "hasColumn p text = list_ex p (headersOf text)"

text \<open>The cells of a data line, and the number parsed from its amount cell.\<close>

definition columnsOf :: "string \<Rightarrow> string \<Rightarrow> string list" where
  "columnsOf text line = map (\<lambda>col. removeQuotes (trim col)) (split (delimiterOf text) line)"

definition parsedAmount :: "string \<Rightarrow> string \<Rightarrow> jsnum" where
  "parsedAmount text line = parseFloat (commaToPeriod (columnsOf text line ! nat (amountIndexOf text)))"

text \<open>
  The row-level defects: too few columns, a blank line, an invalid date, an amount that
  does not parse to a number.
\<close>

definition tooFewColumns :: "string \<Rightarrow> string \<Rightarrow> bool" where
  "tooFewColumns text line =
     (int (length (columnsOf text line)) \<le>
        max (max (max (dateIndexOf text) (descIndexOf text)) (amountIndexOf text))
            (if typeIndexOf text \<noteq> - 1 then typeIndexOf text else 0))"

definition invalidDate :: "dateParser \<Rightarrow> string \<Rightarrow> string \<Rightarrow> bool" where
  "invalidDate newDate text line =
     (formatDate newDate (columnsOf text line ! nat (dateIndexOf text)) = ''Invalid Date'')"

definition defectiveRow :: "dateParser \<Rightarrow> string \<Rightarrow> string \<Rightarrow> bool" where
  "defectiveRow newDate text line =
     (tooFewColumns text line \<or> trim line = [] \<or> invalidDate newDate text line \<or>
      parsedAmount text line = NaN)"

text \<open>The record that \<open>parseCSV\<close> builds from a data line.\<close>

definition rowRecord :: "dateParser \<Rightarrow> string \<Rightarrow> string \<Rightarrow> BankTransaction" where
  "rowRecord newDate text line =
     the (parseLine newDate (delimiterOf text) (dateIndexOf text) (descIndexOf text)
            (amountIndexOf text) (typeIndexOf text) line)"

text \<open>An amount that is not negative: a finite number from 0 on, or the positive infinity.\<close>

definition nonNegative :: "jsnum \<Rightarrow> bool" where
  "nonNegative a = (case a of Fin x \<Rightarrow> 0 \<le> x | PosInf \<Rightarrow> True | _ \<Rightarrow> False)"

definition isFiniteNumber :: "jsnum \<Rightarrow> bool" where
  "isFiniteNumber a = (case a of Fin x \<Rightarrow> True | _ \<Rightarrow> False)"

text \<open>
  A date parser for the examples. It is defined on the strings the examples use, where
  it agrees with every host: the ISO date is valid, and the text \<open>not-a-date\<close> and the
  empty string are not.
\<close>

definition sampleDate :: dateParser where
  "sampleDate s = (if s = ''2024-01-05'' then Some ''2024-01-05'' else None)"

subsection \<open>Notions used to state the properties of generateReport\<close>

text \<open>
  The quoting of a field in tabular text, in the words of the specification: the value
  is wrapped in quotes and every embedded quote is doubled.
\<close>

definition csvEscape :: "string \<Rightarrow> string" where
  "csvEscape s =
     [quoteChar] @ concat (map (\<lambda>c. if c = quoteChar then [quoteChar, quoteChar] else [c]) s) @
     [quoteChar]"

text \<open>A line of fields separated by commas.\<close>

fun joinFields :: "string list \<Rightarrow> string" where
  "joinFields [] = [newlineChar]"
| "joinFields [f] = f @ [newlineChar]"
| "joinFields (f # g # fs) = f @ '','' @ joinFields (g # fs)"

text \<open>The field values of the three kinds of rows.\<close>

definition mismatchFields :: "Transaction \<times> BankObj \<times> string \<Rightarrow> string list" where
  "mismatchFields mismatch =
     (case mismatch of (userTransaction, bankTransaction, reason) \<Rightarrow>
        [reason, tx_date userTransaction, tx_description userTransaction, tx_category userTransaction,
         toFixed2 (tx_amount userTransaction), txTypeString (tx_type userTransaction),
         bank_description (snd bankTransaction), toFixed2 (bank_amount (snd bankTransaction)),
         bankTypeString (bank_type (snd bankTransaction))])"

definition userOnlyFields :: "Transaction \<Rightarrow> string list" where
  "userOnlyFields transaction =
     [tx_date transaction, tx_description transaction, tx_category transaction,
      toFixed2 (tx_amount transaction), txTypeString (tx_type transaction)]"

definition bankOnlyFields :: "BankObj \<Rightarrow> string list" where
  "bankOnlyFields transaction =
     [bank_date (snd transaction), bank_description (snd transaction),
      toFixed2 (bank_amount (snd transaction)), bankTypeString (bank_type (snd transaction))]"

text \<open>A user transaction whose description holds quote characters: \<open>say "hi"\<close>.\<close>

definition quotedNote :: Transaction where
  "quotedNote = \<lparr>tx_id = ''t5'', tx_date = ''2024-01-05'', tx_amount = Fin 50, tx_category = ''Food'',
     tx_type = Expense, tx_description = ''say '' @ [quoteChar] @ ''hi'' @ [quoteChar]\<rparr>"

text \<open>A user transaction whose description holds the delimiter.\<close>

definition commaNote :: Transaction where
  "commaNote = \<lparr>tx_id = ''t6'', tx_date = ''2024-01-05'', tx_amount = Fin (99 / 8), tx_category = ''Food'',
     tx_type = Expense, tx_description = ''bread, butter''\<rparr>"

text \<open>Sample bank statements.\<close>

definition infinityCsv :: string where
  "infinityCsv = ''Date,Description,Amount'' @ [newlineChar] @ ''2024-01-05,Bonus,Infinity''"

definition signedCsv :: string where
  "signedCsv = ''Date,Description,Amount,Type'' @ [newlineChar] @ ''2024-01-05,Fee,-50,debit''"

definition germanCsv :: string where
  "germanCsv = ''Datum,Beschreibung,Betrag'' @ [newlineChar] @ ''2024-01-05,Miete,-700'' @
     [newlineChar] @ ''2024-01-05,Strom,abc''"

definition semicolonCsv :: string where
  "semicolonCsv = ''Date;Description;Amount;Type'' @ [newlineChar] @
     ''2024-01-05;Coffee, large;4,50;debit'' @ [newlineChar] @
     [newlineChar] @
     ''not-a-date;Tea;1;credit'' @ [newlineChar] @
     ''2024-01-05;Cake;abc;credit'' @ [newlineChar] @
     ''2024-01-05;Milk'' @ [newlineChar] @
     ''2024-01-05;Salary;900.5;Credit''"

definition noDescriptionCsv :: string where
  "noDescriptionCsv = ''Date,Amount'' @ [newlineChar] @ ''2024-01-05,12''"

section \<open>Properties of compareTransactions\<close>

lemmas sample_defs = coffee_def lunch_def books_def refund_def cardPayment_def transfer_def
  rentDebit_def

lemmas compare_defs = compareTransactions_def compareLoop_def compareStep_def bankObjects_def
  isExactMatch_def isPotentialMismatch_def mismatchReason_def tolerance_def

lemma matched_foldl:
  "matched (foldl (compareStep B) r xs) =
     matched r @ List.map_filter (\<lambda>u. map_option (Pair u) (find (\<lambda>b. isExactMatch u (snd b)) B)) xs"
  by (induction xs arbitrary: r) (auto simp: compareStep_def map_filter_simps split: option.splits)

lemma mismatched_foldl:
  "mismatched (foldl (compareStep B) r xs) =
     mismatched r @ List.map_filter (\<lambda>u.
        if find (\<lambda>b. isExactMatch u (snd b)) B = None
        then map_option (\<lambda>m. (u, m, mismatchReason u (snd m))) (find (\<lambda>b. isPotentialMismatch u (snd b)) B)
        else None) xs"
  by (induction xs arbitrary: r) (auto simp: compareStep_def map_filter_simps split: option.splits)

lemma userOnly_step:
  "userOnly (compareStep B r x) =
     (if pairing B x \<noteq> None then filter (\<lambda>t. tx_id t \<noteq> tx_id x) (userOnly r) else userOnly r)"
  by (simp add: compareStep_def pairing_def split: option.splits)

lemma bankOnly_step:
  "bankOnly (compareStep B r x) =
     (case pairing B x of Some m \<Rightarrow> filter (\<lambda>t. fst t \<noteq> fst m) (bankOnly r) | None \<Rightarrow> bankOnly r)"
  by (simp add: compareStep_def pairing_def split: option.splits)

lemma userOnly_foldl:
  "userOnly (foldl (compareStep B) r xs) =
     filter (\<lambda>t. \<forall>u\<in>set xs. pairing B u \<noteq> None \<longrightarrow> tx_id t \<noteq> tx_id u) (userOnly r)"
proof (induction xs arbitrary: r)
  case Nil
  then show ?case by simp
next
  case (Cons x xs)
  have "userOnly (foldl (compareStep B) r (x # xs)) =
        filter (\<lambda>t. \<forall>u\<in>set xs. pairing B u \<noteq> None \<longrightarrow> tx_id t \<noteq> tx_id u)
          (userOnly (compareStep B r x))"
    by (simp add: Cons.IH)
  also have "\<dots> = filter (\<lambda>t. \<forall>u\<in>set (x # xs). pairing B u \<noteq> None \<longrightarrow> tx_id t \<noteq> tx_id u) (userOnly r)"
    by (auto simp: userOnly_step intro!: filter_cong)
  finally show ?case .
qed

lemma bankOnly_foldl:
  "bankOnly (foldl (compareStep B) r xs) =
     filter (\<lambda>t. \<forall>u\<in>set xs. \<forall>m. pairing B u = Some m \<longrightarrow> fst t \<noteq> fst m) (bankOnly r)"
proof (induction xs arbitrary: r)
  case Nil
  then show ?case by simp
next
  case (Cons x xs)
  have "bankOnly (foldl (compareStep B) r (x # xs)) =
        filter (\<lambda>t. \<forall>u\<in>set xs. \<forall>m. pairing B u = Some m \<longrightarrow> fst t \<noteq> fst m)
          (bankOnly (compareStep B r x))"
    by (simp add: Cons.IH)
  also have "\<dots> = filter (\<lambda>t. \<forall>u\<in>set (x # xs). \<forall>m. pairing B u = Some m \<longrightarrow> fst t \<noteq> fst m) (bankOnly r)"
    by (cases "pairing B x") (auto simp: bankOnly_step intro!: filter_cong)
  finally show ?case .
qed


lemma find_bankObjects_Some:
  "find P (bankObjects bs) = Some (i, b) \<longleftrightarrow>
     i < length bs \<and> b = bs ! i \<and> P (i, bs ! i) \<and> (\<forall>j<i. \<not> P (j, bs ! j))"
  unfolding bankObjects_def find_Some_iff
  by (auto simp: nth_enumerate_eq)

lemma find_bankObjects_None:
  "find P (bankObjects bs) = None \<longleftrightarrow> (\<forall>j<length bs. \<not> P (j, bs ! j))"
  unfolding bankObjects_def find_None_iff
  by (auto simp: in_set_conv_nth nth_enumerate_eq)

lemma compareTransactions_returns:
  "bankTransactions \<noteq> [] \<Longrightarrow>
     compareTransactions transactions bankTransactions =
       Some (compareLoop transactions (bankObjects bankTransactions))"
  by (simp add: compareTransactions_def)

lemma compareTransactions_Some:
  "compareTransactions transactions bankTransactions = Some r \<Longrightarrow>
     r = compareLoop transactions (bankObjects bankTransactions)"
  by (simp add: compareTransactions_def split: if_splits)

lemma matched_compareLoop:
  "matched (compareLoop xs B) =
     List.map_filter (\<lambda>u. map_option (Pair u) (find (\<lambda>b. isExactMatch u (snd b)) B)) xs"
  by (simp add: compareLoop_def matched_foldl)

lemma mismatched_compareLoop:
  "mismatched (compareLoop xs B) =
     List.map_filter (\<lambda>u.
        if find (\<lambda>b. isExactMatch u (snd b)) B = None
        then map_option (\<lambda>m. (u, m, mismatchReason u (snd m))) (find (\<lambda>b. isPotentialMismatch u (snd b)) B)
        else None) xs"
  by (simp add: compareLoop_def mismatched_foldl)

lemma userOnly_compareLoop:
  "userOnly (compareLoop xs B) =
     filter (\<lambda>t. \<forall>u\<in>set xs. pairing B u \<noteq> None \<longrightarrow> tx_id t \<noteq> tx_id u) xs"
  by (simp add: compareLoop_def userOnly_foldl)

lemma bankOnly_compareLoop:
  "bankOnly (compareLoop xs B) =
     filter (\<lambda>t. \<forall>u\<in>set xs. \<forall>m. pairing B u = Some m \<longrightarrow> fst t \<noteq> fst m) B"
  by (simp add: compareLoop_def bankOnly_foldl)

lemma map_fst_matched:
  "map fst (matched (compareLoop xs B)) =
     filter (\<lambda>u. find (\<lambda>b. isExactMatch u (snd b)) B \<noteq> None) xs"
  unfolding matched_compareLoop
  by (induction xs) (auto simp: map_filter_simps split: option.splits)

lemma map_fst_mismatched:
  "map fst (mismatched (compareLoop xs B)) =
     filter (\<lambda>u. find (\<lambda>b. isExactMatch u (snd b)) B = None \<and>
                 find (\<lambda>b. isPotentialMismatch u (snd b)) B \<noteq> None) xs"
  unfolding mismatched_compareLoop
  by (induction xs) (auto simp: map_filter_simps split: option.splits)

lemma map_snd_bankObjects: "map snd (bankObjects bs) = bs"
  by (simp add: bankObjects_def)

lemma set_map_filter_conv:
  "set (List.map_filter g xs) = {y. \<exists>x\<in>set xs. g x = Some y}"
  by (induction xs) (auto split: option.splits)

lemma in_matched_compareLoop:
  "(u, m) \<in> set (matched (compareLoop xs B)) \<longleftrightarrow>
     u \<in> set xs \<and> find (\<lambda>b. isExactMatch u (snd b)) B = Some m"
proof -
  have "(u, m) \<in> set (matched (compareLoop xs B)) \<longleftrightarrow>
        (\<exists>x\<in>set xs. \<exists>z. find (\<lambda>b. isExactMatch x (snd b)) B = Some z \<and> (x, z) = (u, m))"
    by (simp only: matched_compareLoop set_map_filter_conv mem_Collect_eq map_option_eq_Some)
  then show ?thesis by blast
qed

lemma mismatch_entry_iff:
  "(if e = None then map_option (\<lambda>m. (x, m, R x m)) p else None) = Some (u, m, reason) \<longleftrightarrow>
     x = u \<and> e = None \<and> p = Some m \<and> reason = R u m"
  by (cases e; cases p) auto

lemma in_mismatched_compareLoop:
  "(u, m, reason) \<in> set (mismatched (compareLoop xs B)) \<longleftrightarrow>
     u \<in> set xs \<and> find (\<lambda>b. isExactMatch u (snd b)) B = None \<and>
     find (\<lambda>b. isPotentialMismatch u (snd b)) B = Some m \<and> reason = mismatchReason u (snd m)"
proof -
  have "(u, m, reason) \<in> set (mismatched (compareLoop xs B)) \<longleftrightarrow>
     (\<exists>x\<in>set xs. x = u \<and> find (\<lambda>b. isExactMatch x (snd b)) B = None \<and>
        find (\<lambda>b. isPotentialMismatch x (snd b)) B = Some m \<and> reason = mismatchReason u (snd m))"
    by (simp only: mismatched_compareLoop set_map_filter_conv mem_Collect_eq
          mismatch_entry_iff [where R = "\<lambda>x m. mismatchReason x (snd m)"])
  then show ?thesis by blast
qed

lemma pairing_Some:
  "pairing B u = Some m \<longleftrightarrow>
     find (\<lambda>b. isExactMatch u (snd b)) B = Some m \<or>
     (find (\<lambda>b. isExactMatch u (snd b)) B = None \<and> find (\<lambda>b. isPotentialMismatch u (snd b)) B = Some m)"
  by (cases "find (\<lambda>b. isExactMatch u (snd b)) B") (simp_all add: pairing_def)

lemma in_pairedBank:
  "m \<in> pairedBank r \<longleftrightarrow> (\<exists>u. (u, m) \<in> set (matched r)) \<or> (\<exists>u reason. (u, m, reason) \<in> set (mismatched r))"
  unfolding pairedBank_def by force

lemma in_pairedBank_compareLoop:
  "m \<in> pairedBank (compareLoop xs B) \<longleftrightarrow> (\<exists>u\<in>set xs. pairing B u = Some m)"
  unfolding in_pairedBank in_matched_compareLoop in_mismatched_compareLoop pairing_Some
  by blast

lemma pairing_in_set: "pairing B u = Some m \<Longrightarrow> m \<in> set B"
  by (auto simp: pairing_def find_Some_iff split: option.splits)

lemma distinct_fst_bankObjects: "distinct (map fst (bankObjects bs))"
  by (simp add: bankObjects_def)

lemma fst_eq_bankObjects:
  "a \<in> set (bankObjects bs) \<Longrightarrow> b \<in> set (bankObjects bs) \<Longrightarrow> fst a = fst b \<Longrightarrow> a = b"
  using distinct_fst_bankObjects [of bs]
  by (meson distinct_map inj_onD)

lemma in_bankOnly_compareLoop:
  "obj \<in> set (bankOnly (compareLoop xs (bankObjects bs))) \<longleftrightarrow>
     obj \<in> set (bankObjects bs) \<and> obj \<notin> pairedBank (compareLoop xs (bankObjects bs))"
proof -
  let ?B = "bankObjects bs"
  have "(\<forall>u\<in>set xs. \<forall>m. pairing ?B u = Some m \<longrightarrow> fst obj \<noteq> fst m) \<longleftrightarrow>
        \<not> (\<exists>u\<in>set xs. pairing ?B u = Some obj)" if obj: "obj \<in> set ?B"
  proof
    assume a: "\<forall>u\<in>set xs. \<forall>m. pairing ?B u = Some m \<longrightarrow> fst obj \<noteq> fst m"
    show "\<not> (\<exists>u\<in>set xs. pairing ?B u = Some obj)"
      using a by blast
  next
    assume a: "\<not> (\<exists>u\<in>set xs. pairing ?B u = Some obj)"
    show "\<forall>u\<in>set xs. \<forall>m. pairing ?B u = Some m \<longrightarrow> fst obj \<noteq> fst m"
    proof (intro ballI allI impI notI)
      fix u m assume u: "u \<in> set xs" and m: "pairing ?B u = Some m" and eq: "fst obj = fst m"
      have "m \<in> set ?B" using m by (rule pairing_in_set)
      with obj have "obj = m" using eq by (rule fst_eq_bankObjects)
      with a u m show False by blast
    qed
  qed
  then show ?thesis
    unfolding bankOnly_compareLoop in_pairedBank_compareLoop by auto
qed

lemma set_bankOnly_compareLoop:
  "set (bankOnly (compareLoop xs (bankObjects bs))) =
     set (bankObjects bs) - pairedBank (compareLoop xs (bankObjects bs))"
  using in_bankOnly_compareLoop [of _ xs bs] by blast

lemma distinct_bankOnly_compareLoop: "distinct (bankOnly (compareLoop xs (bankObjects bs)))"
proof -
  have "distinct (bankObjects bs)"
    using distinct_fst_bankObjects [of bs] by (simp add: distinct_map)
  then show ?thesis
    unfolding bankOnly_compareLoop by (rule distinct_filter)
qed

lemma three_way_length:
  "length (filter E xs) + length (filter (\<lambda>u. \<not> E u \<and> M u) xs) +
   length (filter (\<lambda>u. \<not> E u \<and> \<not> M u) xs) = length xs"
  by (induction xs) auto

lemma userOnly_distinct_ids:
  assumes "distinct (map tx_id xs)"
  shows "userOnly (compareLoop xs B) = filter (\<lambda>t. pairing B t = None) xs"
proof -
  have inj: "inj_on tx_id (set xs)"
    using assms by (simp add: distinct_map)
  show ?thesis
    unfolding userOnly_compareLoop
  proof (rule filter_cong [OF refl])
    fix t assume t: "t \<in> set xs"
    show "(\<forall>u\<in>set xs. pairing B u \<noteq> None \<longrightarrow> tx_id t \<noteq> tx_id u) = (pairing B t = None)"
    proof
      assume a: "\<forall>u\<in>set xs. pairing B u \<noteq> None \<longrightarrow> tx_id t \<noteq> tx_id u"
      show "pairing B t = None"
      proof (rule ccontr)
        assume "pairing B t \<noteq> None"
        with bspec [OF a t] show False by simp
      qed
    next
      assume n: "pairing B t = None"
      show "\<forall>u\<in>set xs. pairing B u \<noteq> None \<longrightarrow> tx_id t \<noteq> tx_id u"
      proof (intro ballI impI notI)
        fix u assume u: "u \<in> set xs" and p: "pairing B u \<noteq> None" and eq: "tx_id t = tx_id u"
        from inj eq t u have "t = u" by (rule inj_onD)
        with n p show False by simp
      qed
    qed
  qed
qed

lemma pairing_None:
  "pairing B t = None \<longleftrightarrow>
     find (\<lambda>b. isExactMatch t (snd b)) B = None \<and> find (\<lambda>b. isPotentialMismatch t (snd b)) B = None"
  by (simp add: pairing_def split: option.splits)

lemma compareLoop_total_users:
  assumes "distinct (map tx_id xs)"
  shows "length (matched (compareLoop xs B)) + length (mismatched (compareLoop xs B)) +
         length (userOnly (compareLoop xs B)) = length xs"
proof -
  let ?E = "\<lambda>u. find (\<lambda>b. isExactMatch u (snd b)) B \<noteq> None"
  let ?M = "\<lambda>u. find (\<lambda>b. isPotentialMismatch u (snd b)) B \<noteq> None"
  have 1: "length (matched (compareLoop xs B)) = length (filter ?E xs)"
    using map_fst_matched [of xs B] by (metis length_map)
  have 2: "length (mismatched (compareLoop xs B)) = length (filter (\<lambda>u. \<not> ?E u \<and> ?M u) xs)"
    using map_fst_mismatched [of xs B] by (metis (lifting) length_map)
  have 3: "userOnly (compareLoop xs B) = filter (\<lambda>u. \<not> ?E u \<and> \<not> ?M u) xs"
    by (simp only: userOnly_distinct_ids [OF assms] pairing_None not_not)
  show ?thesis
    unfolding 1 2 3 by (rule three_way_length)
qed

lemma count_list_pos: "0 < count_list xs x \<longleftrightarrow> x \<in> set xs"
  using count_list_0_iff [of xs x] by auto


section \<open>The claims about compareTransactions\<close>

text \<open>
  Claim C1 (conservation). As stated, the claim asks that every bank record of the input
  occurs exactly once in \<open>matched\<close>, \<open>mismatched\<close> and \<open>bankOnly\<close> together. Both
  searches of the loop run over the whole array \<open>bankTransactions\<close>, so one bank object
  can be paired with several user transactions: below, the card payment of 50 is
  matched with \<open>coffee\<close> and then reported as an amount mismatch for \<open>books\<close>, and
  occurs twice.
\<close>

theorem compare_conservation_counterexample:
  "compareTransactions [coffee, books] [cardPayment] =
     Some \<lparr>matched = [(coffee, (0, cardPayment))], userOnly = [], bankOnly = [],
           mismatched = [(books, (0, cardPayment), ''Amount mismatch'')]\<rparr> \<and>
   bankOccurrences
     \<lparr>matched = [(coffee, (0, cardPayment))], userOnly = [], bankOnly = [],
      mismatched = [(books, (0, cardPayment), ''Amount mismatch'')]\<rparr> (0, cardPayment) = 2"
  by (simp add: compare_defs sample_defs bankOccurrences_def)

text \<open>
  Claim C1, as the code has it: when the ids of the user transactions are pairwise
  distinct, the sizes of \<open>matched\<close>, \<open>mismatched\<close> and \<open>userOnly\<close> add up to the number of
  user transactions. No bank object is lost: each occurs at least once in the three
  buckets; \<open>bankOnly\<close> holds exactly the bank objects paired with no user transaction, each
  once; and every paired bank object is one of the input.
\<close>

theorem compare_conservation:
  assumes "compareTransactions transactions bankTransactions = Some r"
  shows "(distinct (map tx_id transactions) \<longrightarrow>
            length (matched r) + length (mismatched r) + length (userOnly r) = length transactions) \<and>
         (\<forall>obj\<in>set (bankObjects bankTransactions). 1 \<le> bankOccurrences r obj) \<and>
         set (bankOnly r) = set (bankObjects bankTransactions) - pairedBank r \<and>
         distinct (bankOnly r) \<and>
         pairedBank r \<subseteq> set (bankObjects bankTransactions)"
proof -
  have r: "r = compareLoop transactions (bankObjects bankTransactions)"
    using assms by (rule compareTransactions_Some)
  have users: "distinct (map tx_id transactions) \<longrightarrow>
      length (matched r) + length (mismatched r) + length (userOnly r) = length transactions"
    unfolding r by (simp add: compareLoop_total_users)
  have only: "set (bankOnly r) = set (bankObjects bankTransactions) - pairedBank r"
    unfolding r by (rule set_bankOnly_compareLoop)
  have dist: "distinct (bankOnly r)"
    unfolding r by (rule distinct_bankOnly_compareLoop)
  have sub: "pairedBank r \<subseteq> set (bankObjects bankTransactions)"
    unfolding r using in_pairedBank_compareLoop pairing_in_set by blast
  have occ: "\<forall>obj\<in>set (bankObjects bankTransactions). 1 \<le> bankOccurrences r obj"
  proof
    fix obj assume obj: "obj \<in> set (bankObjects bankTransactions)"
    show "1 \<le> bankOccurrences r obj"
    proof (cases "obj \<in> pairedBank r")
      case True
      then have "obj \<in> set (map snd (matched r)) \<or> obj \<in> set (map (fst \<circ> snd) (mismatched r))"
        by (auto simp: pairedBank_def)
      then have "0 < count_list (map snd (matched r)) obj \<or>
                 0 < count_list (map (fst \<circ> snd) (mismatched r)) obj"
        by (simp only: count_list_pos)
      then show ?thesis by (auto simp: bankOccurrences_def)
    next
      case False
      with obj only have "obj \<in> set (bankOnly r)" by simp
      then have "0 < count_list (bankOnly r) obj" by (simp only: count_list_pos)
      then show ?thesis by (simp add: bankOccurrences_def)
    qed
  qed
  from users occ only dist sub show ?thesis by blast
qed

theorem compare_conservation_witness:
  "compareTransactions [books, coffee] [transfer, cardPayment] =
     Some \<lparr>matched = [(coffee, (1, cardPayment))], userOnly = [], bankOnly = [(0, transfer)],
           mismatched = [(books, (1, cardPayment), ''Amount mismatch'')]\<rparr> \<and>
   distinct (map tx_id [books, coffee]) \<and>
   length [(coffee, (1::nat, cardPayment))] + length [(books, (1::nat, cardPayment), ''Amount mismatch'')] +
     length ([] :: Transaction list) = length [books, coffee] \<and>
   (0, transfer) \<in> set (bankObjects [transfer, cardPayment]) \<and>
   1 \<le> bankOccurrences
     \<lparr>matched = [(coffee, (1, cardPayment))], userOnly = [], bankOnly = [(0, transfer)],
      mismatched = [(books, (1, cardPayment), ''Amount mismatch'')]\<rparr> (0, transfer)"
proof -
  let ?r = "\<lparr>matched = [(coffee, (1, cardPayment))], userOnly = [], bankOnly = [(0, transfer)],
           mismatched = [(books, (1, cardPayment), ''Amount mismatch'')]\<rparr>"
  have h: "compareTransactions [books, coffee] [transfer, cardPayment] = Some ?r"
    by (simp add: compare_defs sample_defs)
  have d: "distinct (map tx_id [books, coffee])"
    by (simp add: sample_defs)
  have m: "(0, transfer) \<in> set (bankObjects [transfer, cardPayment])"
    by (simp add: bankObjects_def)
  from compare_conservation [OF h] d m
  have "length (matched ?r) + length (mismatched ?r) + length (userOnly ?r) = length [books, coffee]"
    and "1 \<le> bankOccurrences ?r (0, transfer)"
    by blast+
  with h d m show ?thesis by simp
qed

text \<open>
  Claim C2 (the pool of unconsumed bank records). As stated, a bank record paired with
  an earlier user transaction is never paired with a later one. The loop never looks at
  what earlier iterations chose: two expenses of 50 on the same day are both matched with
  the one card payment.
\<close>

theorem compare_pool_counterexample:
  "compareTransactions [coffee, lunch] [cardPayment] =
     Some \<lparr>matched = [(coffee, (0, cardPayment)), (lunch, (0, cardPayment))],
           userOnly = [], bankOnly = [], mismatched = []\<rparr>"
  by (simp add: compare_defs sample_defs)

text \<open>
  Claim C2, as the code has it: each user transaction searches the whole array of bank
  records, whatever earlier user transactions were paired with. An entry of \<open>matched\<close>
  pairs a user transaction with the first bank record, in the order of the array, that
  satisfies the exact-match test; an entry of \<open>mismatched\<close> belongs to a user transaction
  that no bank record matches exactly, and holds the first bank record of the array that
  satisfies the mismatch test, with the reason computed from the two.
\<close>

theorem compare_searches_whole_array:
  assumes "compareTransactions transactions bankTransactions = Some r"
  shows "(\<forall>u i b. (u, (i, b)) \<in> set (matched r) \<longleftrightarrow>
            u \<in> set transactions \<and> i < length bankTransactions \<and> b = bankTransactions ! i \<and>
            isExactMatch u b \<and> (\<forall>j<i. \<not> isExactMatch u (bankTransactions ! j))) \<and>
         (\<forall>u i b reason. (u, (i, b), reason) \<in> set (mismatched r) \<longleftrightarrow>
            u \<in> set transactions \<and> (\<forall>j<length bankTransactions. \<not> isExactMatch u (bankTransactions ! j)) \<and>
            i < length bankTransactions \<and> b = bankTransactions ! i \<and>
            isPotentialMismatch u b \<and> (\<forall>j<i. \<not> isPotentialMismatch u (bankTransactions ! j)) \<and>
            reason = mismatchReason u b)"
proof -
  have r: "r = compareLoop transactions (bankObjects bankTransactions)"
    using assms by (rule compareTransactions_Some)
  have 1: "(u, (i, b)) \<in> set (matched r) \<longleftrightarrow>
            u \<in> set transactions \<and> i < length bankTransactions \<and> b = bankTransactions ! i \<and>
            isExactMatch u b \<and> (\<forall>j<i. \<not> isExactMatch u (bankTransactions ! j))" for u i b
    unfolding r in_matched_compareLoop find_bankObjects_Some by auto
  have 2: "(u, (i, b), reason) \<in> set (mismatched r) \<longleftrightarrow>
            u \<in> set transactions \<and> (\<forall>j<length bankTransactions. \<not> isExactMatch u (bankTransactions ! j)) \<and>
            i < length bankTransactions \<and> b = bankTransactions ! i \<and>
            isPotentialMismatch u b \<and> (\<forall>j<i. \<not> isPotentialMismatch u (bankTransactions ! j)) \<and>
            reason = mismatchReason u b" for u i b reason
    unfolding r in_mismatched_compareLoop find_bankObjects_Some find_bankObjects_None by auto
  from 1 2 show ?thesis by blast
qed

theorem compare_searches_whole_array_witness:
  "compareTransactions [coffee, lunch] [transfer, cardPayment] =
     Some \<lparr>matched = [(coffee, (1, cardPayment)), (lunch, (1, cardPayment))],
           userOnly = [], bankOnly = [(0, transfer)], mismatched = []\<rparr> \<and>
   (lunch, (1, cardPayment)) \<in> set [(coffee, (1, cardPayment)), (lunch, (1, cardPayment))] \<and>
   lunch \<in> set [coffee, lunch] \<and> isExactMatch lunch cardPayment \<and> \<not> isExactMatch lunch transfer"
proof -
  let ?r = "\<lparr>matched = [(coffee, (1, cardPayment)), (lunch, (1, cardPayment))],
           userOnly = [], bankOnly = [(0, transfer)], mismatched = []\<rparr>"
  have h: "compareTransactions [coffee, lunch] [transfer, cardPayment] = Some ?r"
    by (simp add: compare_defs sample_defs)
  have in_m: "(lunch, (1, cardPayment)) \<in> set (matched ?r)"
    by simp
  from compare_searches_whole_array [OF h] in_m
  have "lunch \<in> set [coffee, lunch] \<and> isExactMatch lunch cardPayment \<and>
        (\<forall>j<1. \<not> isExactMatch lunch ([transfer, cardPayment] ! j))"
    by blast
  then have "lunch \<in> set [coffee, lunch] \<and> isExactMatch lunch cardPayment \<and> \<not> isExactMatch lunch transfer"
    by simp
  with h show ?thesis by simp
qed




text \<open>
  Claim C9 (the tolerance). With exact rational amounts, a user transaction and a bank
  record of the same date and direction pass the exact-match test precisely when their
  amounts differ by less than 1/100: compared alone, the two are matched in that case and
  reported as an amount mismatch otherwise. The witness takes the differences 0.009 and
  0.011.
\<close>

theorem tolerance_boundary:
  assumes a: "tx_amount userTx = Fin a"
    and c: "bank_amount bankTx = Fin c"
    and sameDate: "tx_date userTx = bank_date bankTx"
    and sameDirection: "(tx_type userTx = Income \<and> bank_type bankTx = Credit) \<or>
                        (tx_type userTx = Expense \<and> bank_type bankTx = Debit)"
  shows "isExactMatch userTx bankTx = (\<bar>a - c\<bar> < 1 / 100) \<and>
         compareTransactions [userTx] [bankTx] = Some
           (if \<bar>a - c\<bar> < 1 / 100
            then \<lparr>matched = [(userTx, (0, bankTx))], userOnly = [], bankOnly = [], mismatched = []\<rparr>
            else \<lparr>matched = [], userOnly = [], bankOnly = [],
                   mismatched = [(userTx, (0, bankTx), ''Amount mismatch'')]\<rparr>)"
proof -
  have e: "isExactMatch userTx bankTx = (\<bar>a - c\<bar> < 1 / 100)"
    using a c sameDate sameDirection by (auto simp: isExactMatch_def tolerance_def)
  have m: "\<not> \<bar>a - c\<bar> < 1 / 100 \<Longrightarrow> isPotentialMismatch userTx bankTx"
    using a c sameDate by (auto simp: isPotentialMismatch_def tolerance_def)
  have reason: "\<not> \<bar>a - c\<bar> < 1 / 100 \<Longrightarrow> mismatchReason userTx bankTx = ''Amount mismatch''"
    using a c by (auto simp: mismatchReason_def tolerance_def)
  have "compareTransactions [userTx] [bankTx] = Some
           (if \<bar>a - c\<bar> < 1 / 100
            then \<lparr>matched = [(userTx, (0, bankTx))], userOnly = [], bankOnly = [], mismatched = []\<rparr>
            else \<lparr>matched = [], userOnly = [], bankOnly = [],
                   mismatched = [(userTx, (0, bankTx), ''Amount mismatch'')]\<rparr>)"
    using e m reason
    by (simp add: compareTransactions_def compareLoop_def compareStep_def bankObjects_def)
  with e show ?thesis by simp
qed

theorem tolerance_boundary_witness:
  "compareTransactions [coffee\<lparr>tx_amount := Fin (50009 / 1000)\<rparr>] [cardPayment] =
     Some \<lparr>matched = [(coffee\<lparr>tx_amount := Fin (50009 / 1000)\<rparr>, (0, cardPayment))],
           userOnly = [], bankOnly = [], mismatched = []\<rparr> \<and>
   compareTransactions [coffee\<lparr>tx_amount := Fin (50011 / 1000)\<rparr>] [cardPayment] =
     Some \<lparr>matched = [], userOnly = [], bankOnly = [],
           mismatched = [(coffee\<lparr>tx_amount := Fin (50011 / 1000)\<rparr>, (0, cardPayment), ''Amount mismatch'')]\<rparr> \<and>
   \<bar>50009 / 1000 - 50 :: rat\<bar> = 9 / 1000 \<and> \<bar>50011 / 1000 - 50 :: rat\<bar> = 11 / 1000"
proof -
  have c: "bank_amount cardPayment = Fin 50"
    by (simp add: sample_defs)
  have near: "compareTransactions [coffee\<lparr>tx_amount := Fin (50009 / 1000)\<rparr>] [cardPayment] =
     Some \<lparr>matched = [(coffee\<lparr>tx_amount := Fin (50009 / 1000)\<rparr>, (0, cardPayment))],
           userOnly = [], bankOnly = [], mismatched = []\<rparr>"
    using tolerance_boundary [of "coffee\<lparr>tx_amount := Fin (50009 / 1000)\<rparr>" "50009 / 1000" cardPayment 50]
    by (simp add: sample_defs)
  have far: "compareTransactions [coffee\<lparr>tx_amount := Fin (50011 / 1000)\<rparr>] [cardPayment] =
     Some \<lparr>matched = [], userOnly = [], bankOnly = [],
           mismatched = [(coffee\<lparr>tx_amount := Fin (50011 / 1000)\<rparr>, (0, cardPayment), ''Amount mismatch'')]\<rparr>"
    using tolerance_boundary [of "coffee\<lparr>tx_amount := Fin (50011 / 1000)\<rparr>" "50011 / 1000" cardPayment 50]
    by (simp add: sample_defs)
  from near far show ?thesis by simp
qed

text \<open>
  Claim C10 (order). The entries of \<open>matched\<close> and of \<open>mismatched\<close> follow the order of the
  user transactions they belong to, \<open>userOnly\<close> is a subsequence of the user transactions,
  and \<open>bankOnly\<close> is a subsequence of the bank records (as objects with their positions,
  and so also as records).
\<close>

theorem compare_preserves_order:
  assumes "compareTransactions transactions bankTransactions = Some r"
  shows "subseq (map fst (matched r)) transactions \<and>
         subseq (map fst (mismatched r)) transactions \<and>
         subseq (userOnly r) transactions \<and>
         subseq (bankOnly r) (bankObjects bankTransactions) \<and>
         subseq (map snd (bankOnly r)) bankTransactions"
proof -
  have r: "r = compareLoop transactions (bankObjects bankTransactions)"
    using assms by (rule compareTransactions_Some)
  have 1: "subseq (map fst (matched r)) transactions"
    unfolding r map_fst_matched by (rule subseq_filter_left)
  have 2: "subseq (map fst (mismatched r)) transactions"
    unfolding r map_fst_mismatched by (rule subseq_filter_left)
  have 3: "subseq (userOnly r) transactions"
    unfolding r userOnly_compareLoop by (rule subseq_filter_left)
  have 4: "subseq (bankOnly r) (bankObjects bankTransactions)"
    unfolding r bankOnly_compareLoop by (rule subseq_filter_left)
  have "subseq (map snd (bankOnly r)) (map snd (bankObjects bankTransactions))"
    using 4 by (rule subseq_map)
  then have 5: "subseq (map snd (bankOnly r)) bankTransactions"
    by (simp add: map_snd_bankObjects)
  from 1 2 3 4 5 show ?thesis by simp
qed

theorem compare_preserves_order_witness:
  "compareTransactions [books, refund, coffee] [cardPayment, transfer] =
     Some \<lparr>matched = [(coffee, (0, cardPayment))], userOnly = [], bankOnly = [(1, transfer)],
           mismatched = [(books, (0, cardPayment), ''Amount mismatch''),
                         (refund, (0, cardPayment), ''Transaction type mismatch'')]\<rparr> \<and>
   subseq [coffee] [books, refund, coffee] \<and>
   subseq [books, refund] [books, refund, coffee] \<and>
   subseq [] [books, refund, coffee] \<and>
   subseq [(1, transfer)] (bankObjects [cardPayment, transfer]) \<and>
   subseq [transfer] [cardPayment, transfer]"
proof -
  let ?r = "\<lparr>matched = [(coffee, (0, cardPayment))], userOnly = [], bankOnly = [(1, transfer)],
           mismatched = [(books, (0, cardPayment), ''Amount mismatch''),
                         (refund, (0, cardPayment), ''Transaction type mismatch'')]\<rparr>"
  have h: "compareTransactions [books, refund, coffee] [cardPayment, transfer] = Some ?r"
    by (simp add: compare_defs sample_defs)
  from compare_preserves_order [OF h] h show ?thesis by simp
qed

section \<open>Properties of parseCSV\<close>

lemmas csv_samples = infinityCsv_def signedCsv_def germanCsv_def semicolonCsv_def noDescriptionCsv_def

lemmas string_defs = trim_def isWhiteSpace_def tabChar_def newlineChar_def quoteChar_def
  toLowerCase_def toLowerChar_def removeQuotes_def padStart2_def

lemmas parseFloat_defs = parseFloat_def isDigit_def digitsValue_def digitValue_def exponentPart_def
  toNumber_def

lemmas formatDate_defs = formatDate_def tryDayMonthYear_def matchDayMonthYear_def sampleDate_def

lemmas parseCSV_defs = parseCSV_def parseLine_def detectDelimiter_def isDateHeader_def isDescHeader_def
  isAmountHeader_def isTypeHeader_def js_gt_def isNaN_def Let_def

lemma split_not_Nil: "split sep s \<noteq> []"
  by (induction s) (auto split: list.splits)

lemma findIndex_ge: "- 1 \<le> findIndex p xs"
  by (induction xs) (auto simp: Let_def)

lemma findIndex_none: "findIndex p xs = - 1 \<longleftrightarrow> \<not> list_ex p xs"
proof (induction xs)
  case Nil
  then show ?case by simp
next
  case (Cons x xs)
  have "- 1 \<le> findIndex p xs" by (rule findIndex_ge)
  then have "findIndex p xs + 1 \<noteq> - 1" by arith
  with Cons show ?case by (simp add: Let_def)
qed

lemma js_abs_NaN: "js_abs a = NaN \<longleftrightarrow> a = NaN"
  by (cases a) simp_all

lemma nonNegative_js_abs: "a \<noteq> NaN \<Longrightarrow> nonNegative (js_abs a)"
  by (cases a) (simp_all add: nonNegative_def)

lemma parseCSV_unfold:
  "parseCSV newDate text =
     (if dateIndexOf text = - 1 \<or> descIndexOf text = - 1 \<or> amountIndexOf text = - 1
      then Inl (Error ''Required columns (Date, Description, Amount) not found'')
      else Inr (map the
             (filter (\<lambda>t. t \<noteq> None \<and> \<not> isNaN (bank_amount (the t)))
                (map (parseLine newDate (delimiterOf text) (dateIndexOf text) (descIndexOf text)
                        (amountIndexOf text) (typeIndexOf text))
                   (dataLines text)))))"
  by (simp add: parseCSV_def Let_def split_not_Nil csvLines_def headerLineOf_def delimiterOf_def
        headersOf_def dateIndexOf_def descIndexOf_def amountIndexOf_def typeIndexOf_def dataLines_def)

lemma parseLine_None:
  "parseLine newDate (delimiterOf text) (dateIndexOf text) (descIndexOf text)
      (amountIndexOf text) (typeIndexOf text) line = None \<longleftrightarrow>
   tooFewColumns text line \<or> trim line = [] \<or> invalidDate newDate text line"
  by (simp add: parseLine_def Let_def tooFewColumns_def invalidDate_def columnsOf_def)

lemma parseLine_amount:
  assumes "\<not> tooFewColumns text line" "trim line \<noteq> []" "\<not> invalidDate newDate text line"
  shows "bank_amount (rowRecord newDate text line) =
           (if typeIndexOf text \<noteq> - 1 then parsedAmount text line else js_abs (parsedAmount text line))"
  using assms
  by (simp add: rowRecord_def parseLine_def Let_def tooFewColumns_def invalidDate_def columnsOf_def
        parsedAmount_def)

lemma kept_iff_not_defective:
  "(parseLine newDate (delimiterOf text) (dateIndexOf text) (descIndexOf text)
      (amountIndexOf text) (typeIndexOf text) line \<noteq> None \<and>
    \<not> isNaN (bank_amount (rowRecord newDate text line))) \<longleftrightarrow> \<not> defectiveRow newDate text line"
proof (cases "tooFewColumns text line \<or> trim line = [] \<or> invalidDate newDate text line")
  case True
  then show ?thesis
    unfolding parseLine_None defectiveRow_def by blast
next
  case False
  then have "bank_amount (rowRecord newDate text line) =
           (if typeIndexOf text \<noteq> - 1 then parsedAmount text line else js_abs (parsedAmount text line))"
    by (simp add: parseLine_amount)
  then have "isNaN (bank_amount (rowRecord newDate text line)) \<longleftrightarrow> parsedAmount text line = NaN"
    by (simp add: isNaN_def js_abs_NaN)
  with False show ?thesis
    unfolding parseLine_None defectiveRow_def by blast
qed

lemma map_the_filter_map:
  "map the (filter (\<lambda>t. t \<noteq> None \<and> \<not> q (the t)) (map f xs)) =
   map (\<lambda>x. the (f x)) (filter (\<lambda>x. f x \<noteq> None \<and> \<not> q (the (f x))) xs)"
  by (induction xs) auto

lemma parseCSV_rows:
  "parseCSV newDate text =
     (if dateIndexOf text = - 1 \<or> descIndexOf text = - 1 \<or> amountIndexOf text = - 1
      then Inl (Error ''Required columns (Date, Description, Amount) not found'')
      else Inr (map (rowRecord newDate text)
                  (filter (\<lambda>line. \<not> defectiveRow newDate text line) (dataLines text))))"
proof -
  let ?f = "parseLine newDate (delimiterOf text) (dateIndexOf text) (descIndexOf text)
              (amountIndexOf text) (typeIndexOf text)"
  have "map the (filter (\<lambda>t. t \<noteq> None \<and> \<not> isNaN (bank_amount (the t))) (map ?f (dataLines text))) =
        map (\<lambda>x. the (?f x)) (filter (\<lambda>x. ?f x \<noteq> None \<and> \<not> isNaN (bank_amount (the (?f x)))) (dataLines text))"
    by (rule map_the_filter_map)
  also have "\<dots> = map (rowRecord newDate text)
                  (filter (\<lambda>line. \<not> defectiveRow newDate text line) (dataLines text))"
    using kept_iff_not_defective [of newDate "text"]
    by (simp add: rowRecord_def [abs_def])
  finally show ?thesis
    by (simp only: parseCSV_unfold)
qed

lemma infinityCsv_parsed:
  "parseCSV sampleDate infinityCsv =
     Inr [\<lparr>bank_date = ''2024-01-05'', bank_description = ''Bonus'', bank_amount = PosInf,
           bank_type = Credit\<rparr>]"
  by (simp add: csv_samples string_defs parseFloat_defs formatDate_defs parseCSV_defs)

lemma signedCsv_parsed:
  "parseCSV sampleDate signedCsv =
     Inr [\<lparr>bank_date = ''2024-01-05'', bank_description = ''Fee'', bank_amount = Fin (- 50),
           bank_type = Debit\<rparr>]"
  by (simp add: csv_samples string_defs parseFloat_defs formatDate_defs parseCSV_defs)

lemma germanCsv_parsed:
  "parseCSV sampleDate germanCsv =
     Inr [\<lparr>bank_date = ''2024-01-05'', bank_description = ''Miete'', bank_amount = Fin 700,
           bank_type = Debit\<rparr>]"
  by (simp add: csv_samples string_defs parseFloat_defs formatDate_defs parseCSV_defs)

lemma semicolonCsv_parsed:
  "parseCSV sampleDate semicolonCsv =
     Inr [\<lparr>bank_date = ''2024-01-05'', bank_description = ''Coffee, large'', bank_amount = Fin (9 / 2),
           bank_type = Debit\<rparr>,
          \<lparr>bank_date = ''2024-01-05'', bank_description = ''Salary'', bank_amount = Fin (1801 / 2),
           bank_type = Credit\<rparr>]"
  by (simp add: csv_samples string_defs parseFloat_defs formatDate_defs parseCSV_defs)

lemmas header_defs = hasColumn_def headersOf_def delimiterOf_def headerLineOf_def csvLines_def
  typeIndexOf_def dateIndexOf_def descIndexOf_def amountIndexOf_def
  detectDelimiter_def isDateHeader_def isDescHeader_def isAmountHeader_def isTypeHeader_def

lemma str_includes_single: "str_includes s [c] \<longleftrightarrow> c \<in> set s"
proof (induction s)
  case Nil
  then show ?case by simp
next
  case (Cons x xs)
  have "startsWith (x # xs) [c] \<longleftrightarrow> x = c" by simp
  with Cons show ?case by auto
qed

lemma trim_Nil: "trim [] = []"
  by (simp add: trim_def)

lemma trim_blank: "list_all isWhiteSpace s \<Longrightarrow> trim s = []"
proof -
  assume "list_all isWhiteSpace s"
  then have d: "dropWhile isWhiteSpace s = []"
    by (simp add: dropWhile_eq_Nil_conv list_all_iff)
  show ?thesis by (simp only: trim_def d) simp
qed

lemma parseCSV_blank:
  assumes "list_all isWhiteSpace text"
  shows "parseCSV newDate text = Inl (Error ''Required columns (Date, Description, Amount) not found'')"
  by (simp add: parseCSV_def Let_def trim_blank [OF assms] trim_Nil detectDelimiter_def
        toLowerCase_def removeQuotes_def isDateHeader_def)

lemma germanCsv_no_type_column: "typeIndexOf germanCsv = - 1"
  by (simp add: csv_samples header_defs string_defs)

lemma germanCsv_dataLines:
  "dataLines germanCsv = [''2024-01-05,Miete,-700'', ''2024-01-05,Strom,abc'']"
  by (simp add: csv_samples dataLines_def csvLines_def string_defs)

lemma germanCsv_parsedAmounts:
  "parsedAmount germanCsv ''2024-01-05,Miete,-700'' = Fin (- 700) \<and>
   parsedAmount germanCsv ''2024-01-05,Strom,abc'' = NaN"
  by (simp add: parsedAmount_def columnsOf_def amountIndexOf_def csv_samples header_defs string_defs
        parseFloat_defs)

lemma semicolonCsv_columns:
  "hasColumn isDateHeader semicolonCsv \<and> hasColumn isDescHeader semicolonCsv \<and>
   hasColumn isAmountHeader semicolonCsv"
  by (simp add: csv_samples header_defs string_defs)

lemma noDescriptionCsv_columns: "\<not> hasColumn isDescHeader noDescriptionCsv"
  by (simp add: csv_samples header_defs string_defs)

section \<open>The claims about parseCSV\<close>

text \<open>
  Claim C3 (amounts of the emitted records). As stated, every emitted record has a
  finite amount that is not negative. The final filter of \<open>parseCSV\<close> removes \<open>NaN\<close>
  only, and \<open>parseFloat\<close> reads \<open>Infinity\<close>: the row below is emitted with an infinite
  amount.
\<close>

theorem parseCSV_amounts_counterexample:
  "parseCSV sampleDate infinityCsv =
     Inr [\<lparr>bank_date = ''2024-01-05'', bank_description = ''Bonus'', bank_amount = PosInf,
           bank_type = Credit\<rparr>] \<and>
   \<not> isFiniteNumber
       (bank_amount \<lparr>bank_date = ''2024-01-05'', bank_description = ''Bonus'', bank_amount = PosInf,
           bank_type = Credit\<rparr>)"
  by (simp add: infinityCsv_parsed isFiniteNumber_def)

text \<open>
  With a type column the amount cell is stored as parsed, with its sign; \<open>Math.abs\<close> is
  applied in the branch without a type column only.
\<close>

lemma parseCSV_keeps_sign_with_type_column:
  "parseCSV sampleDate signedCsv =
     Inr [\<lparr>bank_date = ''2024-01-05'', bank_description = ''Fee'', bank_amount = Fin (- 50),
           bank_type = Debit\<rparr>] \<and>
   \<not> nonNegative (Fin (- 50))"
  by (simp add: signedCsv_parsed nonNegative_def)

text \<open>
  Claim C3, as the code has it: the emitted records are those of the data rows without
  a defect, in order, and a row whose amount cell does not parse to a number is a
  defective row; no emitted amount is \<open>NaN\<close>; and when the header has no type column,
  the stored amount is the absolute value of the parsed amount cell, which is not
  negative (a finite number from 0 on, or the positive infinity).
\<close>

theorem parseCSV_amounts:
  assumes "parseCSV newDate text = Inr records"
  shows "records = map (rowRecord newDate text)
                     (filter (\<lambda>line. \<not> defectiveRow newDate text line) (dataLines text)) \<and>
         (\<forall>t\<in>set records. bank_amount t \<noteq> NaN) \<and>
         (typeIndexOf text = - 1 \<longrightarrow>
            (\<forall>line\<in>set (dataLines text). \<not> defectiveRow newDate text line \<longrightarrow>
               bank_amount (rowRecord newDate text line) = js_abs (parsedAmount text line)) \<and>
            (\<forall>t\<in>set records. nonNegative (bank_amount t)))"
proof -
  have recs: "records = map (rowRecord newDate text)
                     (filter (\<lambda>line. \<not> defectiveRow newDate text line) (dataLines text))"
    using assms unfolding parseCSV_rows by (simp split: if_splits)
  have amount: "bank_amount (rowRecord newDate text line) =
           (if typeIndexOf text \<noteq> - 1 then parsedAmount text line else js_abs (parsedAmount text line))"
    and parsed: "parsedAmount text line \<noteq> NaN"
    if "\<not> defectiveRow newDate text line" for line
    using that by (simp_all add: defectiveRow_def parseLine_amount)
  have notNaN: "bank_amount (rowRecord newDate text line) \<noteq> NaN"
    if "\<not> defectiveRow newDate text line" for line
    using amount [OF that] parsed [OF that] by (simp add: js_abs_NaN)
  have nonneg: "nonNegative (bank_amount (rowRecord newDate text line))"
    if "\<not> defectiveRow newDate text line" "typeIndexOf text = - 1" for line
    using amount [OF that(1)] parsed [OF that(1)] that(2) by (simp add: nonNegative_js_abs)
  have 1: "\<forall>t\<in>set records. bank_amount t \<noteq> NaN"
    unfolding recs using notNaN by auto
  have 2: "typeIndexOf text = - 1 \<longrightarrow>
            (\<forall>line\<in>set (dataLines text). \<not> defectiveRow newDate text line \<longrightarrow>
               bank_amount (rowRecord newDate text line) = js_abs (parsedAmount text line))"
    using amount by simp
  have 3: "typeIndexOf text = - 1 \<longrightarrow> (\<forall>t\<in>set records. nonNegative (bank_amount t))"
    unfolding recs using nonneg by auto
  from recs 1 2 3 show ?thesis by blast
qed

theorem parseCSV_amounts_witness:
  "parseCSV sampleDate germanCsv =
     Inr [\<lparr>bank_date = ''2024-01-05'', bank_description = ''Miete'', bank_amount = Fin 700,
           bank_type = Debit\<rparr>] \<and>
   typeIndexOf germanCsv = - 1 \<and>
   dataLines germanCsv = [''2024-01-05,Miete,-700'', ''2024-01-05,Strom,abc''] \<and>
   parsedAmount germanCsv ''2024-01-05,Miete,-700'' = Fin (- 700) \<and>
   parsedAmount germanCsv ''2024-01-05,Strom,abc'' = NaN \<and>
   filter (\<lambda>line. \<not> defectiveRow sampleDate germanCsv line) (dataLines germanCsv) =
     [''2024-01-05,Miete,-700''] \<and>
   Fin 700 \<noteq> NaN \<and> nonNegative (Fin 700) \<and> js_abs (Fin (- 700)) = Fin 700"
proof -
  let ?rec = "\<lparr>bank_date = ''2024-01-05'', bank_description = ''Miete'', bank_amount = Fin 700,
           bank_type = Debit\<rparr>"
  note h = germanCsv_parsed
  note t = germanCsv_no_type_column
  note a = germanCsv_parsedAmounts
  have defective: "defectiveRow sampleDate germanCsv ''2024-01-05,Strom,abc''"
    using a by (simp add: defectiveRow_def)
  from parseCSV_amounts [OF h] t
  have recs: "[?rec] = map (rowRecord sampleDate germanCsv)
                (filter (\<lambda>line. \<not> defectiveRow sampleDate germanCsv line) (dataLines germanCsv))"
    and notNaN: "\<forall>t\<in>set [?rec]. bank_amount t \<noteq> NaN"
    and nonneg: "\<forall>t\<in>set [?rec]. nonNegative (bank_amount t)"
    by blast+
  from recs defective
  have kept: "filter (\<lambda>line. \<not> defectiveRow sampleDate germanCsv line) (dataLines germanCsv) =
     [''2024-01-05,Miete,-700'']"
    by (simp add: germanCsv_dataLines split: if_splits)
  from notNaN nonneg have "Fin 700 \<noteq> NaN \<and> nonNegative (Fin 700)"
    by simp
  with h t a kept germanCsv_dataLines show ?thesis by simp
qed

text \<open>
  Claim C5 (text without a non-empty line). The claim asks for the empty sequence and no
  error. \<open>split\<close> never returns the empty array (for the empty text it returns the array
  holding the empty string), so the test \<open>lines.length === 0\<close> never holds; the header
  line is then the empty string, no column is found in it, and \<open>parseCSV\<close> throws.
\<close>

theorem parseCSV_empty_text:
  "parseCSV newDate [] = Inl (Error ''Required columns (Date, Description, Amount) not found'') \<and>
   parseCSV newDate ('' '' @ [newlineChar] @ '' '') =
     Inl (Error ''Required columns (Date, Description, Amount) not found'') \<and>
   split newlineChar (trim []) = [[]]"
proof -
  have 1: "parseCSV newDate [] = Inl (Error ''Required columns (Date, Description, Amount) not found'')"
    by (rule parseCSV_blank) simp
  have 2: "parseCSV newDate ('' '' @ [newlineChar] @ '' '') =
     Inl (Error ''Required columns (Date, Description, Amount) not found'')"
    by (rule parseCSV_blank) (simp add: isWhiteSpace_def newlineChar_def)
  have 3: "split newlineChar (trim []) = [[]]"
    by (simp add: trim_def)
  from 1 2 3 show ?thesis by simp
qed

text \<open>
  Claim C6 (fatal errors). \<open>parseCSV\<close> fails exactly when the date, the description or
  the amount column is not located in the header; otherwise it returns the records of
  the data rows that have no defect (too few columns, a blank line, an invalid date, an
  amount that is not a number), in order, whatever the other rows hold.
\<close>

theorem parseCSV_fatal_iff_missing_column:
  "((\<exists>e. parseCSV newDate text = Inl e) \<longleftrightarrow>
      \<not> (hasColumn isDateHeader text \<and> hasColumn isDescHeader text \<and> hasColumn isAmountHeader text)) \<and>
   (hasColumn isDateHeader text \<and> hasColumn isDescHeader text \<and> hasColumn isAmountHeader text \<longrightarrow>
      parseCSV newDate text =
        Inr (map (rowRecord newDate text)
               (filter (\<lambda>line. \<not> defectiveRow newDate text line) (dataLines text))))"
proof -
  have cols: "(dateIndexOf text = - 1 \<or> descIndexOf text = - 1 \<or> amountIndexOf text = - 1) \<longleftrightarrow>
      \<not> (hasColumn isDateHeader text \<and> hasColumn isDescHeader text \<and> hasColumn isAmountHeader text)"
  proof -
    have "dateIndexOf text = - 1 \<longleftrightarrow> \<not> hasColumn isDateHeader text"
      by (simp only: dateIndexOf_def hasColumn_def findIndex_none)
    moreover have "descIndexOf text = - 1 \<longleftrightarrow> \<not> hasColumn isDescHeader text"
      by (simp only: descIndexOf_def hasColumn_def findIndex_none)
    moreover have "amountIndexOf text = - 1 \<longleftrightarrow> \<not> hasColumn isAmountHeader text"
      by (simp only: amountIndexOf_def hasColumn_def findIndex_none)
    ultimately show ?thesis by blast
  qed
  show ?thesis
  proof (cases "dateIndexOf text = - 1 \<or> descIndexOf text = - 1 \<or> amountIndexOf text = - 1")
    case True
    then have "parseCSV newDate text = Inl (Error ''Required columns (Date, Description, Amount) not found'')"
      by (simp only: parseCSV_rows if_True)
    with True cols show ?thesis by simp
  next
    case False
    then have "parseCSV newDate text =
        Inr (map (rowRecord newDate text)
               (filter (\<lambda>line. \<not> defectiveRow newDate text line) (dataLines text)))"
      by (simp only: parseCSV_rows if_False)
    with False cols show ?thesis by simp
  qed
qed

theorem parseCSV_fatal_iff_missing_column_witness:
  "hasColumn isDateHeader semicolonCsv \<and> hasColumn isDescHeader semicolonCsv \<and>
   hasColumn isAmountHeader semicolonCsv \<and>
   parseCSV sampleDate semicolonCsv =
     Inr (map (rowRecord sampleDate semicolonCsv)
            (filter (\<lambda>line. \<not> defectiveRow sampleDate semicolonCsv line) (dataLines semicolonCsv))) \<and>
   parseCSV sampleDate semicolonCsv =
     Inr [\<lparr>bank_date = ''2024-01-05'', bank_description = ''Coffee, large'', bank_amount = Fin (9 / 2),
           bank_type = Debit\<rparr>,
          \<lparr>bank_date = ''2024-01-05'', bank_description = ''Salary'', bank_amount = Fin (1801 / 2),
           bank_type = Credit\<rparr>] \<and>
   length (dataLines semicolonCsv) = 6 \<and>
   \<not> hasColumn isDescHeader noDescriptionCsv \<and>
   (\<exists>e. parseCSV sampleDate noDescriptionCsv = Inl e)"
proof -
  note c = semicolonCsv_columns
  from parseCSV_fatal_iff_missing_column [of sampleDate semicolonCsv] c
  have ok: "parseCSV sampleDate semicolonCsv =
     Inr (map (rowRecord sampleDate semicolonCsv)
            (filter (\<lambda>line. \<not> defectiveRow sampleDate semicolonCsv line) (dataLines semicolonCsv)))"
    by blast
  from parseCSV_fatal_iff_missing_column [of sampleDate noDescriptionCsv] noDescriptionCsv_columns
  have bad: "\<exists>e. parseCSV sampleDate noDescriptionCsv = Inl e"
    by blast
  have n: "length (dataLines semicolonCsv) = 6"
    by (simp add: csv_samples dataLines_def csvLines_def string_defs)
  from c ok semicolonCsv_parsed n noDescriptionCsv_columns bad show ?thesis
    by (simp only: simp_thms)
qed

text \<open>
  Claim C8 (the delimiter). The delimiter is a function of the header line alone: the
  semicolon when the line holds one, else the tab when it holds one, else the comma; the
  header \<open>Date;Description;Amount;Type\<close> gives the semicolon. \<open>parseCSV\<close> splits the
  header and every data line at the delimiter of the first line.
\<close>

theorem delimiter_detection:
  "(CHR '';'' \<in> set headerLine \<longrightarrow> detectDelimiter headerLine = CHR '';'') \<and>
   (CHR '';'' \<notin> set headerLine \<and> tabChar \<in> set headerLine \<longrightarrow> detectDelimiter headerLine = tabChar) \<and>
   (CHR '';'' \<notin> set headerLine \<and> tabChar \<notin> set headerLine \<longrightarrow> detectDelimiter headerLine = CHR '','') \<and>
   detectDelimiter ''Date;Description;Amount;Type'' = CHR '';'' \<and>
   delimiterOf text = detectDelimiter (headerLineOf text)"
  by (simp add: detectDelimiter_def str_includes_single delimiterOf_def)

theorem delimiter_detection_witness:
  "CHR '';'' \<in> set ''Amount;Date,Note'' \<and> detectDelimiter ''Amount;Date,Note'' = CHR '';'' \<and>
   CHR '';'' \<notin> set (''Date'' @ [tabChar] @ ''Amount,Note'') \<and>
   tabChar \<in> set (''Date'' @ [tabChar] @ ''Amount,Note'') \<and>
   detectDelimiter (''Date'' @ [tabChar] @ ''Amount,Note'') = tabChar \<and>
   CHR '';'' \<notin> set ''Date,Amount'' \<and> tabChar \<notin> set ''Date,Amount'' \<and>
   detectDelimiter ''Date,Amount'' = CHR '',''"
  using delimiter_detection [of "''Amount;Date,Note''" "[]"]
    delimiter_detection [of "''Date'' @ [tabChar] @ ''Amount,Note''" "[]"]
    delimiter_detection [of "''Date,Amount''" "[]"]
  by (simp add: tabChar_def)

section \<open>Properties of generateReport\<close>

lemma showNat_small: "n < 10 \<Longrightarrow> showNat n = [''0123456789'' ! n]"
  by (simp add: showNat.simps)

lemma showNat_large: "\<not> n < 10 \<Longrightarrow> showNat n = showNat (n div 10) @ [''0123456789'' ! (n mod 10)]"
  by (subst showNat.simps) simp

lemma floor_10001_half: "\<lfloor>10001 / 2 :: rat\<rfloor> = 5000"
  using floor_divide_of_int_eq [of 10001 2, where ?'a = rat] by simp

lemma toFixed2_50: "toFixed2 (Fin 50) = ''50.00''"
  by (simp add: toFixed2_def Let_def floor_10001_half showNat_small showNat_large)

lemma toFixed2_99_8: "toFixed2 (Fin (99 / 8)) = ''12.38''"
  by (simp add: toFixed2_def Let_def showNat_small showNat_large)

lemma escape_quote_free:
  "quoteChar \<notin> set s \<Longrightarrow> concat (map (\<lambda>c. if c = quoteChar then [quoteChar, quoteChar] else [c]) s) = s"
  by (induction s) auto

lemma escape_length:
  "length (concat (map (\<lambda>c. if c = quoteChar then [quoteChar, quoteChar] else [c]) s)) =
     length s + length (filter (\<lambda>c. c = quoteChar) s)"
  by (induction s) auto

lemma inQuotes_eq_csvEscape: "inQuotes s = csvEscape s \<longleftrightarrow> quoteChar \<notin> set s"
proof
  assume eq: "inQuotes s = csvEscape s"
  show "quoteChar \<notin> set s"
  proof
    assume "quoteChar \<in> set s"
    then have "filter (\<lambda>c. c = quoteChar) s \<noteq> []"
      by (simp add: filter_empty_conv)
    then have "0 < length (filter (\<lambda>c. c = quoteChar) s)" by simp
    then have "length (inQuotes s) \<noteq> length (csvEscape s)"
      by (simp add: inQuotes_def csvEscape_def escape_length)
    with eq show False by simp
  qed
next
  assume "quoteChar \<notin> set s"
  then show "inQuotes s = csvEscape s"
    by (simp add: inQuotes_def csvEscape_def escape_quote_free)
qed

lemma mismatchRow_fields: "mismatchRow m = joinFields (map inQuotes (mismatchFields m))"
  by (cases m) (simp add: mismatchRow_def mismatchFields_def)

lemma userOnlyRow_fields: "userOnlyRow t = joinFields (map inQuotes (userOnlyFields t))"
  by (simp add: userOnlyRow_def userOnlyFields_def)

lemma bankOnlyRow_fields: "bankOnlyRow b = joinFields (map inQuotes (bankOnlyFields b))"
  by (simp add: bankOnlyRow_def bankOnlyFields_def)

lemma concat_map_member:
  assumes "x \<in> set xs"
  shows "\<exists>pre post. concat (map f xs) = pre @ f x @ post"
proof -
  from assms obtain ys zs where "xs = ys @ x # zs"
    by (auto simp: in_set_conv_decomp)
  then have "concat (map f xs) = concat (map f ys) @ f x @ concat (map f zs)"
    by simp
  then show ?thesis by blast
qed

lemma section_member:
  assumes "x \<in> set xs"
  shows "\<exists>pre post. (if length xs > 0 then h @ concat (map f xs) @ e else []) = pre @ f x @ post"
proof -
  from concat_map_member [OF assms] obtain pre post where "concat (map f xs) = pre @ f x @ post"
    by blast
  moreover from assms have "length xs > 0" by (cases xs) auto
  ultimately have "(if length xs > 0 then h @ concat (map f xs) @ e else []) = (h @ pre) @ f x @ (post @ e)"
    by simp
  then show ?thesis by blast
qed

lemma report_has_mismatchRow:
  assumes "m \<in> set (mismatched r)"
  shows "\<exists>pre post. generateReport (Some r) = Some (pre @ mismatchRow m @ post)"
proof -
  obtain pre post where "mismatchedSection r = pre @ mismatchRow m @ post"
    unfolding mismatchedSection_def using section_member [OF assms] by blast
  then have "generateReport (Some r) =
      Some ((summarySection r @ pre) @ mismatchRow m @ (post @ userOnlySection r @ bankOnlySection r))"
    by (simp add: generateReport_def)
  then show ?thesis by blast
qed

lemma report_has_userOnlyRow:
  assumes "t \<in> set (userOnly r)"
  shows "\<exists>pre post. generateReport (Some r) = Some (pre @ userOnlyRow t @ post)"
proof -
  obtain pre post where "userOnlySection r = pre @ userOnlyRow t @ post"
    unfolding userOnlySection_def using section_member [OF assms] by blast
  then have "generateReport (Some r) =
      Some ((summarySection r @ mismatchedSection r @ pre) @ userOnlyRow t @ (post @ bankOnlySection r))"
    by (simp add: generateReport_def)
  then show ?thesis by blast
qed

lemma report_has_bankOnlyRow:
  assumes "b \<in> set (bankOnly r)"
  shows "\<exists>pre post. generateReport (Some r) = Some (pre @ bankOnlyRow b @ post)"
proof -
  obtain pre post where "bankOnlySection r = pre @ bankOnlyRow b @ post"
    unfolding bankOnlySection_def using section_member [OF assms] by blast
  then have "generateReport (Some r) =
      Some ((summarySection r @ mismatchedSection r @ userOnlySection r @ pre) @ bankOnlyRow b @ post)"
    by (simp add: generateReport_def)
  then show ?thesis by blast
qed

section \<open>The claim about generateReport\<close>

text \<open>
  Claim C7 (quoting of field values). As stated, a field value that holds a quote
  character is wrapped in quotes with the embedded quotes doubled. The template
  literals of \<open>generateReport\<close> wrap each value in quotes and copy it unchanged: the
  row of a transaction with the description \<open>say "hi"\<close> differs from its escaped form.
\<close>

theorem report_quoting_counterexample:
  "userOnlyRow quotedNote =
     inQuotes ''2024-01-05'' @ '','' @
     [quoteChar] @ ''say '' @ [quoteChar] @ ''hi'' @ [quoteChar] @ [quoteChar] @ '','' @
     inQuotes ''Food'' @ '','' @ inQuotes ''50.00'' @ '','' @ inQuotes ''expense'' @ [newlineChar] \<and>
   joinFields (map csvEscape (userOnlyFields quotedNote)) =
     inQuotes ''2024-01-05'' @ '','' @
     [quoteChar] @ ''say '' @ [quoteChar, quoteChar] @ ''hi'' @ [quoteChar, quoteChar] @ [quoteChar] @ '','' @
     inQuotes ''Food'' @ '','' @ inQuotes ''50.00'' @ '','' @ inQuotes ''expense'' @ [newlineChar] \<and>
   userOnlyRow quotedNote \<noteq> joinFields (map csvEscape (userOnlyFields quotedNote)) \<and>
   generateReport
     (Some \<lparr>matched = [], userOnly = [quotedNote], bankOnly = [], mismatched = []\<rparr>) =
     Some (summarySection \<lparr>matched = [], userOnly = [quotedNote], bankOnly = [], mismatched = []\<rparr> @
           userOnlyHeader @ userOnlyRow quotedNote @ [newlineChar])"
  by (simp add: userOnlyRow_def userOnlyFields_def quotedNote_def inQuotes_def csvEscape_def
        toFixed2_50 txTypeString_def quoteChar_def newlineChar_def generateReport_def
        mismatchedSection_def userOnlySection_def bankOnlySection_def)

text \<open>
  Claim C7, as the code has it: every row of the three detail sections is the
  comma-separated line of its field values, each wrapped in quotes with its content
  copied unchanged, and the rows of the entries of the result are part of the report.
  A field value wrapped in this way is quote-escaped exactly when it holds no quote
  character; so a value that holds the delimiter and no quote is escaped, and an
  embedded quote is not doubled.
\<close>

theorem report_fields_wrapped_verbatim:
  "mismatchRow m = joinFields (map inQuotes (mismatchFields m)) \<and>
   userOnlyRow t = joinFields (map inQuotes (userOnlyFields t)) \<and>
   bankOnlyRow b = joinFields (map inQuotes (bankOnlyFields b)) \<and>
   (m \<in> set (mismatched r) \<longrightarrow>
      (\<exists>pre post. generateReport (Some r) = Some (pre @ mismatchRow m @ post))) \<and>
   (t \<in> set (userOnly r) \<longrightarrow>
      (\<exists>pre post. generateReport (Some r) = Some (pre @ userOnlyRow t @ post))) \<and>
   (b \<in> set (bankOnly r) \<longrightarrow>
      (\<exists>pre post. generateReport (Some r) = Some (pre @ bankOnlyRow b @ post))) \<and>
   (inQuotes s = csvEscape s \<longleftrightarrow> quoteChar \<notin> set s)"
  using mismatchRow_fields userOnlyRow_fields bankOnlyRow_fields report_has_mismatchRow
    report_has_userOnlyRow report_has_bankOnlyRow inQuotes_eq_csvEscape
  by blast

theorem report_fields_wrapped_verbatim_witness:
  "commaNote \<in> set (userOnly \<lparr>matched = [], userOnly = [commaNote], bankOnly = [], mismatched = []\<rparr>) \<and>
   CHR '','' \<in> set (tx_description commaNote) \<and>
   quoteChar \<notin> set (tx_description commaNote) \<and>
   inQuotes (tx_description commaNote) = csvEscape (tx_description commaNote) \<and>
   userOnlyRow commaNote =
     inQuotes ''2024-01-05'' @ '','' @ inQuotes ''bread, butter'' @ '','' @ inQuotes ''Food'' @ '','' @
     inQuotes ''12.38'' @ '','' @ inQuotes ''expense'' @ [newlineChar] \<and>
   (\<exists>pre post.
      generateReport (Some \<lparr>matched = [], userOnly = [commaNote], bankOnly = [], mismatched = []\<rparr>) =
        Some (pre @ userOnlyRow commaNote @ post))"
proof -
  let ?r = "\<lparr>matched = [], userOnly = [commaNote], bankOnly = [], mismatched = []\<rparr>"
  have member: "commaNote \<in> set (userOnly ?r)" by simp
  have comma: "CHR '','' \<in> set (tx_description commaNote)"
    by (simp add: commaNote_def)
  have noQuote: "quoteChar \<notin> set (tx_description commaNote)"
    by (simp add: commaNote_def quoteChar_def)
  from report_fields_wrapped_verbatim [of _ commaNote _ ?r "tx_description commaNote"] member noQuote
  have row: "userOnlyRow commaNote = joinFields (map inQuotes (userOnlyFields commaNote))"
    and inReport: "\<exists>pre post. generateReport (Some ?r) = Some (pre @ userOnlyRow commaNote @ post)"
    and same: "inQuotes (tx_description commaNote) = csvEscape (tx_description commaNote)"
    by blast+
  have fields: "joinFields (map inQuotes (userOnlyFields commaNote)) =
     inQuotes ''2024-01-05'' @ '','' @ inQuotes ''bread, butter'' @ '','' @ inQuotes ''Food'' @ '','' @
     inQuotes ''12.38'' @ '','' @ inQuotes ''expense'' @ [newlineChar]"
    by (simp add: userOnlyFields_def commaNote_def toFixed2_99_8 txTypeString_def)
  from member comma noQuote same row fields inReport show ?thesis
    by (simp only: simp_thms)
qed

end
